theory Spec2Isabelle
  imports Main "HOL-Library.Word"
begin

section \<open>JavaScript strings\<close>

text \<open>
  A JavaScript string is a sequence of UTF-16 code units.  The regular expressions of the
  backend carry no \<open>u\<close> flag, so they work code unit by code unit, as does
  \<open>String.prototype.trim\<close>.  ASCII literals of the source are written with \<open>js\<close>.
\<close>

type_synonym code_unit = "16 word"
type_synonym jsstring = "code_unit list"

definition js :: "string \<Rightarrow> jsstring" where
  "js s = map of_char s"

text \<open>
  The characters removed by \<open>trim\<close> and matched by \<open>\s\<close>: ECMAScript WhiteSpace and
  LineTerminator (TAB, LF, VT, FF, CR, SP, NBSP, the Zs category, LS, PS, ZWNBSP).
\<close>

definition is_space :: "code_unit \<Rightarrow> bool" where
  "is_space c \<longleftrightarrow>
     c = 0x9 \<or> c = 0xA \<or> c = 0xB \<or> c = 0xC \<or> c = 0xD \<or> c = 0x20 \<or> c = 0xA0 \<or>
     c = 0x1680 \<or> (0x2000 \<le> c \<and> c \<le> 0x200A) \<or> c = 0x2028 \<or> c = 0x2029 \<or>
     c = 0x202F \<or> c = 0x205F \<or> c = 0x3000 \<or> c = 0xFEFF"

definition trim :: "jsstring \<Rightarrow> jsstring" where
  "trim s = rev (dropWhile is_space (rev (dropWhile is_space s)))"

text \<open>A value thrown by a collaborator: an \<open>Error\<close> object with its message, or anything else.\<close>

datatype thrown = Error jsstring | NonError

datatype 'a outcome = Throws thrown | Returns 'a

section \<open>Text extraction (utils/documentProcessor)\<close>

record ProcessDocumentResult =
  success :: bool
  text' :: jsstring
  error :: "jsstring option"

text \<open>
  The file system and the two decoding libraries are collaborators.  \<open>fs_access p\<close> says
  whether \<open>fs.access\<close> resolves; \<open>pdf_text p\<close> is the outcome of reading and parsing the file,
  namely the \<open>text\<close> field of the parse result (possibly undefined) or the value thrown;
  \<open>docx_value\<close> likewise for the \<open>value\<close> field of mammoth's result; \<open>readFile_utf8\<close> is
  \<open>fs.readFile(path, "utf-8")\<close>.
\<close>

record files =
  fs_access :: "jsstring \<Rightarrow> bool"
  pdf_text :: "jsstring \<Rightarrow> jsstring option outcome"
  docx_value :: "jsstring \<Rightarrow> jsstring option outcome"
  readFile_utf8 :: "jsstring \<Rightarrow> jsstring outcome"

text \<open>The \<open>catch\<close> block shared by the three extractors: rethrow with a prefixed message.\<close>

definition rethrow :: "string \<Rightarrow> thrown \<Rightarrow> jsstring outcome" where
  "rethrow prefix t =
     (case t of
        Error m \<Rightarrow> Throws (Error (js prefix @ m))
      | NonError \<Rightarrow> Throws (Error (js prefix @ js ''Unknown error'')))"

text \<open>\<open>!text || text.trim().length === 0\<close> on a possibly undefined string.\<close>

definition blank_opt :: "jsstring option \<Rightarrow> bool" where
  "blank_opt t = (case t of None \<Rightarrow> True | Some s \<Rightarrow> s = [] \<or> length (trim s) = 0)"

definition extractTextFromPDF :: "files \<Rightarrow> jsstring \<Rightarrow> jsstring outcome" where
  "extractTextFromPDF w filePath =
     (case pdf_text w filePath of
        Throws t \<Rightarrow> rethrow ''Failed to extract text from PDF: '' t
      | Returns t \<Rightarrow>
          if blank_opt t
          then rethrow ''Failed to extract text from PDF: ''
                 (Error (js ''PDF document is empty or contains no extractable text''))
          else Returns (the t))"

definition extractTextFromDOCX :: "files \<Rightarrow> jsstring \<Rightarrow> jsstring outcome" where
  "extractTextFromDOCX w filePath =
     (case docx_value w filePath of
        Throws t \<Rightarrow> rethrow ''Failed to extract text from DOCX: '' t
      | Returns t \<Rightarrow>
          if blank_opt t
          then rethrow ''Failed to extract text from DOCX: ''
                 (Error (js ''DOCX document is empty or contains no extractable text''))
          else Returns (the t))"

definition extractTextFromTXT :: "files \<Rightarrow> jsstring \<Rightarrow> jsstring outcome" where
  "extractTextFromTXT w filePath =
     (case readFile_utf8 w filePath of
        Throws t \<Rightarrow> rethrow ''Failed to read TXT file: '' t
      | Returns t \<Rightarrow>
          if blank_opt (Some t)
          then rethrow ''Failed to read TXT file: '' (Error (js ''TXT file is empty''))
          else Returns t)"

definition mime_pdf :: jsstring where
  "mime_pdf = js ''application/pdf''"

definition mime_docx :: jsstring where
  "mime_docx = js ''application/vnd.openxmlformats-officedocument.wordprocessingml.document''"

definition mime_txt :: jsstring where
  "mime_txt = js ''text/plain''"

text \<open>The tail of \<open>processDocument\<close>: the success object, or the outer \<open>catch\<close>.\<close>

definition finish :: "jsstring outcome \<Rightarrow> ProcessDocumentResult" where
  "finish r =
     (case r of
        Returns extractedText \<Rightarrow> \<lparr>success = True, text' = trim extractedText, error = None\<rparr>
      | Throws (Error m) \<Rightarrow> \<lparr>success = False, text' = [], error = Some m\<rparr>
      | Throws NonError \<Rightarrow>
          \<lparr>success = False, text' = [], error = Some (js ''Unknown error occurred'')\<rparr>)"

definition processDocument :: "files \<Rightarrow> jsstring \<Rightarrow> jsstring \<Rightarrow> ProcessDocumentResult" where
  "processDocument w filePath mimetype =
     (if \<not> fs_access w filePath
      then \<lparr>success = False, text' = [], error = Some (js ''File not found'')\<rparr>
      else if mimetype = mime_pdf then finish (extractTextFromPDF w filePath)
      else if mimetype = mime_docx then finish (extractTextFromDOCX w filePath)
      else if mimetype = mime_txt then finish (extractTextFromTXT w filePath)
      else \<lparr>success = False, text' = [],
             error = Some (js ''Unsupported file type: '' @ mimetype)\<rparr>)"

text \<open>Two concrete file systems used to exercise the extractor: one text file each.\<close>

definition files_hi :: files where
  "files_hi = \<lparr>fs_access = (\<lambda>p. True), pdf_text = (\<lambda>p. Returns None),
      docx_value = (\<lambda>p. Returns None), readFile_utf8 = (\<lambda>p. Returns (js '' hi '' @ [0xA]))\<rparr>"

definition files_ws :: files where
  "files_ws = \<lparr>fs_access = (\<lambda>p. True), pdf_text = (\<lambda>p. Returns None),
      docx_value = (\<lambda>p. Returns None), readFile_utf8 = (\<lambda>p. Returns [0x20, 0x9, 0xA, 0xA0])\<rparr>"

section \<open>Answer and citation parsing (utils/openaiService, askQuestion)\<close>

text \<open>
  The regular expressions of \<open>askQuestion\<close> carry the flag \<open>i\<close>.  Without the flag \<open>u\<close>
  a pattern character and an input code unit match when their canonical (upper-case) forms
  agree, and a code unit outside ASCII never canonicalises to an ASCII one.  The patterns here
  are ASCII, so comparing after ASCII upper-casing decides exactly the same matches.
\<close>

definition canonicalize :: "code_unit \<Rightarrow> code_unit" where
  "canonicalize c = (if 0x61 \<le> c \<and> c \<le> 0x7A then c - 0x20 else c)"

definition ci_eq :: "code_unit \<Rightarrow> code_unit \<Rightarrow> bool" where
  "ci_eq p c \<longleftrightarrow> canonicalize p = canonicalize c"

text \<open>Does the subject start with the pattern, case-insensitively?\<close>

fun ci_prefix :: "jsstring \<Rightarrow> jsstring \<Rightarrow> bool" where
  "ci_prefix [] s = True"
| "ci_prefix (p # ps) [] = False"
| "ci_prefix (p # ps) (c # cs) = (ci_eq p c \<and> ci_prefix ps cs)"

text \<open>
  The leftmost match of a literal pattern, as the regular expression engine finds it: try
  each start position from the left.  \<open>after_ci\<close> is the input behind the matched literal
  (no match: \<open>None\<close>); \<open>before_ci\<close> is the input in front of the leftmost match, or the whole
  input when there is none, which is where a lazy \<open>[\s\S]*?\<close> stops in front of
  \<open>(?=CITATIONS:|$)\<close>.
\<close>

fun after_ci :: "jsstring \<Rightarrow> jsstring \<Rightarrow> jsstring option" where
  "after_ci pat [] = (if ci_prefix pat [] then Some [] else None)"
| "after_ci pat (c # cs) =
     (if ci_prefix pat (c # cs) then Some (drop (length pat) (c # cs)) else after_ci pat cs)"

fun before_ci :: "jsstring \<Rightarrow> jsstring \<Rightarrow> jsstring" where
  "before_ci pat [] = []"
| "before_ci pat (c # cs) = (if ci_prefix pat (c # cs) then [] else c # before_ci pat cs)"

definition ANSWER :: jsstring where
  "ANSWER = js ''ANSWER:''"

definition CITATIONS :: jsstring where
  "CITATIONS = js ''CITATIONS:''"

text \<open>
  \<open>fullResponse.match(/ANSWER:\s*([\s\S]*?)(?=CITATIONS:|$)/i)\<close>: the first capture group, or
  \<open>None\<close> for \<open>null\<close>.  The greedy \<open>\s*\<close> takes all the whitespace behind the marker and is
  never backtracked, since the lazy group can always reach the end of the input.
\<close>

definition answerMatch :: "jsstring \<Rightarrow> jsstring option" where
  "answerMatch fullResponse =
     map_option (\<lambda>rest. before_ci CITATIONS (dropWhile is_space rest))
       (after_ci ANSWER fullResponse)"

text \<open>\<open>fullResponse.match(/CITATIONS:\s*([\s\S]*?)$/i)\<close>: the first capture group.\<close>

definition citationsMatch :: "jsstring \<Rightarrow> jsstring option" where
  "citationsMatch fullResponse =
     map_option (dropWhile is_space) (after_ci CITATIONS fullResponse)"

text \<open>
  All matches of \<open>/\[([^\]]+)\]/g\<close>, left to right and not overlapping.  At an opening
  bracket the class \<open>[^\]]+\<close> runs to the next closing bracket; the match needs at least one
  character in between and the closing bracket itself.  An opening bracket inside the body
  belongs to the body.
\<close>

function bracket_matches :: "jsstring \<Rightarrow> jsstring list" where
  "bracket_matches [] = []"
| "bracket_matches (c # cs) =
     (if c = 0x5B \<and> takeWhile (\<lambda>x. x \<noteq> 0x5D) cs \<noteq> [] \<and> dropWhile (\<lambda>x. x \<noteq> 0x5D) cs \<noteq> []
      then (c # takeWhile (\<lambda>x. x \<noteq> 0x5D) cs @ [0x5D])
             # bracket_matches (tl (dropWhile (\<lambda>x. x \<noteq> 0x5D) cs))
      else bracket_matches cs)"
  by pat_completeness auto
termination
proof (relation "measure length")
  show "wf (measure length)" by simp
next
  fix c :: code_unit and cs :: jsstring
  have "length (tl (dropWhile (\<lambda>x. x \<noteq> 0x5D) cs)) \<le> length cs"
    using length_dropWhile_le [of "\<lambda>x. x \<noteq> 0x5D" cs] by simp
  then show "(tl (dropWhile (\<lambda>x. x \<noteq> 0x5D) cs), c # cs) \<in> measure length" by simp
next
  fix c :: code_unit and cs :: jsstring
  show "(cs, c # cs) \<in> measure length" by simp
qed

text \<open>\<open>text.match(re)\<close> with the flag \<open>g\<close> is \<open>null\<close> when nothing matches.\<close>

definition match_brackets :: "jsstring \<Rightarrow> jsstring list option" where
  "match_brackets s = (case bracket_matches s of [] \<Rightarrow> None | m # ms \<Rightarrow> Some (m # ms))"

text \<open>
  The body of both \<open>forEach\<close> callbacks:
  \<open>match.replace(/[\[\]]/g, "").trim()\<close>, pushed when non-empty and not yet included.
\<close>

definition clean :: "jsstring \<Rightarrow> jsstring" where
  "clean m = trim (filter (\<lambda>c. c \<noteq> 0x5B \<and> c \<noteq> 0x5D) m)"

definition push_citation :: "jsstring list \<Rightarrow> jsstring \<Rightarrow> jsstring list" where
  "push_citation citations m =
     (let citation = clean m
      in if citation \<noteq> [] \<and> citation \<notin> set citations then citations @ [citation]
         else citations)"

definition collect :: "jsstring list \<Rightarrow> jsstring \<Rightarrow> jsstring list" where
  "collect citations txt =
     (case match_brackets txt of
        None \<Rightarrow> citations
      | Some ms \<Rightarrow> foldl push_citation citations ms)"

record QuestionAnswerResult =
  answer :: jsstring
  citations :: "jsstring list"

text \<open>Lines 269 to 303 of \<open>askQuestion\<close>: from the model's text to answer and citations.\<close>

definition parse_response :: "jsstring \<Rightarrow> QuestionAnswerResult" where
  "parse_response fullResponse =
     (let answer = (case answerMatch fullResponse of Some g \<Rightarrow> trim g | None \<Rightarrow> fullResponse);
          citationsText = (case citationsMatch fullResponse of Some g \<Rightarrow> trim g | None \<Rightarrow> []);
          citations1 = (if citationsText \<noteq> [] then collect [] citationsText else []);
          citations2 = (if length citations1 = 0 then collect citations1 answer else citations1)
      in \<lparr>answer = answer, citations = citations2\<rparr>)"

subsection \<open>The parsing rules as the specification words them\<close>

text \<open>
  The first position at which the marker occurs (case-insensitively), with the text in front
  of the occurrence and the text behind it.
\<close>

definition spec_split :: "jsstring \<Rightarrow> jsstring \<Rightarrow> (jsstring \<times> jsstring) option" where
  "spec_split marker s =
     map_option (\<lambda>i. (take i s, drop (i + length marker) s))
       (List.find (\<lambda>i. ci_prefix marker (drop i s)) [0..<Suc (length s)])"

text \<open>
  The answer: the text between the marker \<open>ANSWER:\<close> and the next \<open>CITATIONS:\<close> (or the end),
  trimmed; the whole raw output when the marker is absent.
\<close>

definition spec_answer :: "jsstring \<Rightarrow> jsstring" where
  "spec_answer raw =
     (case spec_split ANSWER raw of
        None \<Rightarrow> raw
      | Some (pre, post) \<Rightarrow>
          trim (case spec_split CITATIONS post of None \<Rightarrow> post | Some (mid, rest) \<Rightarrow> mid))"

text \<open>Stable de-duplication: the first occurrence of a label wins.\<close>

fun dedup_first :: "jsstring list \<Rightarrow> jsstring list" where
  "dedup_first [] = []"
| "dedup_first (x # xs) = x # dedup_first (filter (\<lambda>y. y \<noteq> x) xs)"

text \<open>
  The extraction rule in the specification's words: every bracketed substring, brackets
  stripped, whitespace trimmed, de-duplicated.
\<close>

definition spec_extract :: "jsstring \<Rightarrow> jsstring list" where
  "spec_extract txt = dedup_first (map clean (bracket_matches txt))"

text \<open>
  The two passes in the specification's words: the \<open>CITATIONS:\<close> section first; the answer
  text if and only if the first pass yields no citation.
\<close>

definition spec_citations :: "jsstring \<Rightarrow> jsstring list" where
  "spec_citations raw =
     (let first_pass = (case spec_split CITATIONS raw of
                          None \<Rightarrow> []
                        | Some (pre, section) \<Rightarrow> spec_extract section)
      in if first_pass = [] then spec_extract (spec_answer raw) else first_pass)"

text \<open>The extraction rule as the code has it: labels that are empty after trimming are dropped.\<close>

definition extract_labels :: "jsstring \<Rightarrow> jsstring list" where
  "extract_labels txt = dedup_first (filter (\<lambda>l. l \<noteq> []) (map clean (bracket_matches txt)))"

definition two_pass_citations :: "jsstring \<Rightarrow> jsstring list" where
  "two_pass_citations raw =
     (let first_pass = (case spec_split CITATIONS raw of
                          None \<Rightarrow> []
                        | Some (pre, section) \<Rightarrow> extract_labels section)
      in if first_pass = [] then extract_labels (spec_answer raw) else first_pass)"

section \<open>The question service (askQuestion)\<close>

datatype role = User | Model

record ConversationMessage =
  role :: role
  content :: jsstring

record 'a AIServiceResult =
  ai_success :: bool
  data :: "'a option"
  ai_error :: "jsstring option"

datatype chat_role = System_role | User_role | Assistant_role

type_synonym chat_message = "chat_role \<times> jsstring"

text \<open>
  The language model is a collaborator: \<open>create msgs\<close> is the outcome of
  \<open>openai.chat.completions.create\<close> for the message list, namely the value thrown (network
  error, timeout, API error) or \<open>choices[0]?.message?.content\<close>, which may be undefined or
  null (\<open>None\<close>).  \<open>OPENAI_API_KEY\<close> is the environment variable (\<open>None\<close>: not set).
\<close>

record openai =
  OPENAI_API_KEY :: "jsstring option"
  create :: "chat_message list \<Rightarrow> jsstring option outcome"

definition newline :: jsstring where
  "newline = [0xA]"

definition system_content :: "jsstring \<Rightarrow> jsstring" where
  "system_content documentText =
     js ''You are an AI assistant helping users understand a document. Answer questions based on the document content provided.''
     @ newline @ newline
     @ js ''DOCUMENT CONTENT:'' @ newline
     @ documentText @ newline @ newline
     @ js ''INSTRUCTIONS:'' @ newline
     @ js ''1. Answer the question accurately based on the document content'' @ newline
     @ js ''2. Include specific citations by referencing paragraph numbers or sections'' @ newline
     @ js ''3. If the answer spans multiple sections, cite all relevant parts'' @ newline
     @ js ''4. If the information is not in the document, clearly state that'' @ newline
     @ js ''5. Format citations as [Paragraph X] or [Section Y]'' @ newline @ newline
     @ js ''Please provide your answer with citations in the format:'' @ newline
     @ js ''ANSWER: [Your detailed answer here]'' @ newline
     @ js ''CITATIONS: [List of specific paragraph numbers or sections referenced]''"

definition build_messages ::
    "jsstring \<Rightarrow> jsstring \<Rightarrow> ConversationMessage list \<Rightarrow> chat_message list" where
  "build_messages question documentText conversationHistory =
     [(System_role, system_content documentText)]
     @ map (\<lambda>msg. (if role msg = User then User_role else Assistant_role, content msg))
         conversationHistory
     @ [(User_role, question)]"

text \<open>\<open>!s || s.trim().length === 0\<close> on a string.\<close>

definition blank :: "jsstring \<Rightarrow> bool" where
  "blank s \<longleftrightarrow> s = [] \<or> length (trim s) = 0"

definition failure :: "jsstring \<Rightarrow> 'a AIServiceResult" where
  "failure msg = \<lparr>ai_success = False, data = None, ai_error = Some msg\<rparr>"

text \<open>\<open>x || ""\<close> on a possibly undefined string.\<close>

definition or_empty :: "jsstring option \<Rightarrow> jsstring" where
  "or_empty x = (case x of None \<Rightarrow> [] | Some s \<Rightarrow> s)"

definition askQuestion ::
    "openai \<Rightarrow> jsstring \<Rightarrow> jsstring \<Rightarrow> ConversationMessage list
      \<Rightarrow> QuestionAnswerResult AIServiceResult" where
  "askQuestion ai question documentText conversationHistory =
     (if blank question then failure (js ''Question cannot be empty'')
      else if blank documentText then failure (js ''Document text is empty'')
      else if or_empty (OPENAI_API_KEY ai) = []
        then failure (js ''OPENAI_API_KEY is not configured'')
      else
        (case create ai (build_messages question documentText conversationHistory) of
           Throws (Error m) \<Rightarrow> failure (js ''Failed to answer question: '' @ m)
         | Throws NonError \<Rightarrow>
             failure (js ''Failed to answer question: '' @ js ''Unknown error occurred'')
         | Returns c \<Rightarrow>
             \<lparr>ai_success = True, data = Some (parse_response (or_empty c)), ai_error = None\<rparr>))"

section \<open>Sessions and the request handlers (controllers/document.controller)\<close>

text \<open>\<open>uploadedAt\<close> is a \<open>Date\<close>, kept as its time value in milliseconds.\<close>

record DocumentSession =
  sessionId :: jsstring
  filename :: jsstring
  filepath :: jsstring
  mimetype :: jsstring
  doc_text :: jsstring
  uploadedAt :: nat
  conversationHistory :: "ConversationMessage list"

text \<open>The module-level \<open>Map\<close> \<open>documentSessions\<close>.\<close>

type_synonym sessions = "jsstring \<rightharpoonup> DocumentSession"

datatype body =
    ErrorResponse jsstring jsstring
  | UploadResponse jsstring jsstring jsstring jsstring
  | ChatResponse jsstring "jsstring list" "ConversationMessage list"
  | ExportNotesResponse jsstring jsstring

record response =
  status :: nat
  json :: body

definition error_response :: "nat \<Rightarrow> string \<Rightarrow> jsstring \<Rightarrow> response" where
  "error_response code err msg = \<lparr>status = code, json = ErrorResponse (js err) msg\<rparr>"

text \<open>A field of a JSON body or a route parameter: absent (\<open>None\<close>) or a string.\<close>

record ChatRequest =
  req_sessionId :: "jsstring option"
  req_question :: "jsstring option"

definition chatWithDocument ::
    "openai \<Rightarrow> sessions \<Rightarrow> ChatRequest \<Rightarrow> response \<times> sessions" where
  "chatWithDocument ai documentSessions req =
     (if or_empty (req_sessionId req) = [] \<or> or_empty (req_question req) = []
      then (error_response 400 ''Invalid request'' (js ''sessionId and question are required''),
            documentSessions)
      else
        (let sid = or_empty (req_sessionId req); question = or_empty (req_question req)
         in case documentSessions sid of
              None \<Rightarrow>
                (error_response 404 ''Session not found''
                   (js ''Invalid sessionId or session expired''), documentSessions)
            | Some session \<Rightarrow>
                (let result = askQuestion ai question (doc_text session)
                                (conversationHistory session)
                 in if \<not> ai_success result \<or> data result = None
                    then (error_response 500 ''AI service error''
                            (if or_empty (ai_error result) = []
                             then js ''Failed to generate response''
                             else or_empty (ai_error result)),
                          documentSessions)
                    else
                      (let d = the (data result);
                           history = conversationHistory session
                             @ [\<lparr>role = User, content = question\<rparr>,
                                \<lparr>role = Model, content = answer d\<rparr>]
                       in (\<lparr>status = 200, json = ChatResponse (answer d) (citations d) history\<rparr>,
                           documentSessions(sid \<mapsto>
                             session\<lparr>conversationHistory := history\<rparr>))))))"

subsection \<open>Transcript export\<close>

text \<open>A non-negative integer in a template literal: its decimal digits.\<close>

fun show_nat :: "nat \<Rightarrow> jsstring" where
  "show_nat n = (if n < 10 then [of_nat (48 + n)] else show_nat (n div 10) @ [of_nat (48 + n mod 10)])"

declare show_nat.simps [simp del]

text \<open>Reading an array element: out of range is \<open>undefined\<close>.\<close>

definition at :: "'a list \<Rightarrow> nat \<Rightarrow> 'a option" where
  "at xs i = (if i < length xs then Some (xs ! i) else None)"

definition qa_block :: "nat \<Rightarrow> ConversationMessage \<Rightarrow> ConversationMessage \<Rightarrow> jsstring" where
  "qa_block i question answer' =
     js ''## Q'' @ show_nat (i div 2 + 1) @ js '': '' @ content question @ newline @ newline
     @ js ''**Answer:**'' @ newline @ newline @ content answer' @ newline @ newline
     @ js ''---'' @ newline @ newline"

text \<open>The \<open>for\<close> loop over the history, two turns at a time, from index \<open>i\<close>.\<close>

function qa_loop :: "ConversationMessage list \<Rightarrow> nat \<Rightarrow> jsstring \<Rightarrow> jsstring" where
  "qa_loop history i markdown =
     (if i < length history
      then qa_loop history (i + 2)
             (case (at history i, at history (i + 1)) of
                (Some question, Some answer') \<Rightarrow> markdown @ qa_block i question answer'
              | _ \<Rightarrow> markdown)
      else markdown)"
  by pat_completeness auto
termination
  by (relation "measure (\<lambda>(history, i, markdown). length history - i)") auto

declare qa_loop.simps [simp del]

definition markdown_head :: "(nat \<Rightarrow> jsstring) \<Rightarrow> DocumentSession \<Rightarrow> jsstring" where
  "markdown_head toLocaleString session =
     js ''# Document Q&A Notes'' @ newline @ newline
     @ js ''**Document:** '' @ filename session @ newline
     @ js ''**Date:** '' @ toLocaleString (uploadedAt session) @ newline @ newline
     @ js ''---'' @ newline @ newline"

definition render_markdown :: "(nat \<Rightarrow> jsstring) \<Rightarrow> DocumentSession \<Rightarrow> jsstring" where
  "render_markdown toLocaleString session =
     (if length (conversationHistory session) = 0
      then markdown_head toLocaleString session @ js ''No questions asked yet.'' @ newline
      else qa_loop (conversationHistory session) 0 (markdown_head toLocaleString session))"

text \<open>
  \<open>name.replace(/\.[^/.]+$/, "")\<close>: a final dot followed by one or more characters that are
  neither a dot nor a slash is removed; otherwise the name stays.
\<close>

definition strip_extension :: "jsstring \<Rightarrow> jsstring" where
  "strip_extension name =
     (let suffix = rev (takeWhile (\<lambda>c. c \<noteq> 0x2E) (rev name))
      in if 0x2E \<in> set name \<and> suffix \<noteq> [] \<and> 0x2F \<notin> set suffix
         then take (length name - length suffix - 1) name
         else name)"

text \<open>
  \<open>toLocaleString\<close> renders the upload date in the locale and time zone of the process; it is
  a parameter.  The handler only reads the session table; it is returned as it was.
\<close>

definition exportNotes ::
    "(nat \<Rightarrow> jsstring) \<Rightarrow> sessions \<Rightarrow> jsstring option \<Rightarrow> response \<times> sessions" where
  "exportNotes toLocaleString documentSessions sessionId_param =
     (if or_empty sessionId_param = []
      then (error_response 400 ''Invalid request'' (js ''sessionId is required''),
            documentSessions)
      else
        (case documentSessions (or_empty sessionId_param) of
           None \<Rightarrow>
             (error_response 404 ''Session not found''
                (js ''Invalid sessionId or session expired''), documentSessions)
         | Some session \<Rightarrow>
             (\<lparr>status = 200,
               json = ExportNotesResponse (render_markdown toLocaleString session)
                        (strip_extension (filename session) @ js ''_notes.md'')\<rparr>,
              documentSessions)))"

subsection \<open>Runs of chat requests and example data\<close>

text \<open>
  A sequence of chat requests against the session table.  Each call meets its own state of
  the model service and of the environment.
\<close>

fun chat_calls :: "sessions \<Rightarrow> (openai \<times> ChatRequest) list \<Rightarrow> response list \<times> sessions" where
  "chat_calls S [] = ([], S)"
| "chat_calls S ((ai, req) # calls) =
     (let (r, S') = chatWithDocument ai S req;
          (rs, S'') = chat_calls S' calls
      in (r # rs, S''))"

text \<open>The question and the answer of a call that was answered with a chat response.\<close>

definition answered :: "(openai \<times> ChatRequest) \<times> response \<Rightarrow> (jsstring \<times> jsstring) option" where
  "answered cr =
     (case json (snd cr) of
        ChatResponse a c h \<Rightarrow> Some (or_empty (req_question (snd (fst cr))), a)
      | _ \<Rightarrow> None)"

definition exchanges ::
    "(openai \<times> ChatRequest) list \<Rightarrow> response list \<Rightarrow> (jsstring \<times> jsstring) list" where
  "exchanges calls rs = List.map_filter answered (zip calls rs)"

definition turns :: "jsstring \<times> jsstring \<Rightarrow> ConversationMessage list" where
  "turns qa = [\<lparr>role = User, content = fst qa\<rparr>, \<lparr>role = Model, content = snd qa\<rparr>]"

text \<open>The kinds of outcome the specification names, read off a response of the chat handler.\<close>

datatype ask_kind =
  Succeeds | EmptyInput | NotFound | ConfigurationError | UpstreamError | OtherFailure

definition kind_of :: "response \<Rightarrow> ask_kind" where
  "kind_of r =
     (case json r of
        ErrorResponse e m \<Rightarrow>
          if status r = 400 then EmptyInput
          else if status r = 404 then NotFound
          else if m = js ''Question cannot be empty'' then EmptyInput
          else if m = js ''OPENAI_API_KEY is not configured'' then ConfigurationError
          else if take 27 m = js ''Failed to answer question: '' then UpstreamError
          else OtherFailure
      | _ \<Rightarrow> Succeeds)"

text \<open>A model service that answers every prompt with one fixed text, one that throws.\<close>

definition ai_says :: "jsstring option \<Rightarrow> openai" where
  "ai_says c = \<lparr>OPENAI_API_KEY = Some (js ''sk-test''), create = (\<lambda>msgs. Returns c)\<rparr>"

definition ai_down :: openai where
  "ai_down = \<lparr>OPENAI_API_KEY = Some (js ''sk-test''),
               create = (\<lambda>msgs. Throws (Error (js ''timeout'')))\<rparr>"

definition session0 :: DocumentSession where
  "session0 = \<lparr>sessionId = js ''s1'', filename = js ''notes.txt'',
      filepath = js ''uploads/notes_17.txt'', mimetype = mime_txt, doc_text = js ''hi'',
      uploadedAt = 17, conversationHistory = []\<rparr>"

definition store0 :: sessions where
  "store0 = [js ''s1'' \<mapsto> session0]"

definition ask :: "string \<Rightarrow> string \<Rightarrow> ChatRequest" where
  "ask sid q = \<lparr>req_sessionId = Some (js sid), req_question = Some (js q)\<rparr>"

definition session3 :: DocumentSession where
  "session3 = session0\<lparr>conversationHistory :=
      [\<lparr>role = User, content = js ''What?''\<rparr>, \<lparr>role = Model, content = js ''This.''\<rparr>,
       \<lparr>role = User, content = js ''Why?''\<rparr>]\<rparr>"

definition store3 :: sessions where
  "store3 = [js ''s1'' \<mapsto> session3]"

definition epoch :: "nat \<Rightarrow> jsstring" where
  "epoch t = js ''1/1/1970, 12:00:00 AM''"

definition calls0 :: "(openai \<times> ChatRequest) list" where
  "calls0 = [(ai_says (Some (js ''ANSWER: B [S1]'')), ask ''s1'' ''Q1''),
             (ai_down, ask ''s1'' ''Q2''),
             (ai_says (Some (js ''No'')), ask ''s1'' ''Q3'')]"

definition history4 :: "ConversationMessage list" where
  "history4 = [\<lparr>role = User, content = js ''Q1''\<rparr>, \<lparr>role = Model, content = js ''B [S1]''\<rparr>,
               \<lparr>role = User, content = js ''Q3''\<rparr>, \<lparr>role = Model, content = js ''No''\<rparr>]"

definition responses0 :: "response list" where
  "responses0 =
     [\<lparr>status = 200, json = ChatResponse (js ''B [S1]'') [js ''S1''] (take 2 history4)\<rparr>,
      error_response 500 ''AI service error'' (js ''Failed to answer question: timeout''),
      \<lparr>status = 200, json = ChatResponse (js ''No'') [] history4\<rparr>]"

section \<open>Upload validation and storage names (middleware/upload)\<close>

definition ALLOWED_MIME_TYPES :: "jsstring list" where
  "ALLOWED_MIME_TYPES = [mime_pdf, mime_docx, mime_txt]"

definition ALLOWED_EXTENSIONS :: "jsstring list" where
  "ALLOWED_EXTENSIONS = [js ''.pdf'', js ''.docx'', js ''.txt'']"

definition MAX_FILE_SIZE :: nat where
  "MAX_FILE_SIZE = 10 * 1024 * 1024"

text \<open>The file as the multipart parser announces it, with the number of bytes it carries.\<close>

record incoming_file =
  originalname :: jsstring
  file_mimetype :: jsstring
  file_size :: nat

text \<open>
  Node's \<open>path\<close> module is a collaborator; the code is parametric in its two functions.
\<close>

record path_lib =
  extname :: "jsstring \<Rightarrow> jsstring"
  basename :: "jsstring \<Rightarrow> jsstring \<Rightarrow> jsstring"

text \<open>
  The values of Node's two functions on a name without a path separator (the multipart parser
  hands on the last path component only): the extension runs from the last dot, unless there
  is no dot, the last dot is the first character, or the name is \<open>..\<close>; the base name is the
  name without a proper suffix equal to the given extension.  Names with a separator are not
  modelled, and nothing below evaluates these functions on one.
\<close>

definition plain_extname :: "jsstring \<Rightarrow> jsstring" where
  "plain_extname name =
     (let after = rev (takeWhile (\<lambda>c. c \<noteq> 0x2E) (rev name))
      in if 0x2E \<notin> set name \<or> length after + 1 = length name \<or> name = [0x2E, 0x2E] then []
         else drop (length name - length after - 1) name)"

definition plain_basename :: "jsstring \<Rightarrow> jsstring \<Rightarrow> jsstring" where
  "plain_basename name ext =
     (if ext \<noteq> [] \<and> length ext \<le> length name
      then (if ext = name then []
            else if drop (length name - length ext) name = ext
              then take (length name - length ext) name
            else name)
      else name)"

definition node_path :: path_lib where
  "node_path = \<lparr>extname = plain_extname, basename = plain_basename\<rparr>"

text \<open>
  \<open>toLowerCase\<close> on the extension.  Only ASCII letters are mapped here: no character outside
  ASCII has a lower-case form made of the characters of \<open>.pdf\<close>, \<open>.docx\<close> or \<open>.txt\<close>, so the
  membership test that follows is decided the same way.
\<close>

definition toLowerCase :: "jsstring \<Rightarrow> jsstring" where
  "toLowerCase s = map (\<lambda>c. if 0x41 \<le> c \<and> c \<le> 0x5A then c + 0x20 else c) s"

datatype filter_result = Accepted | Rejected jsstring

definition fileFilter :: "path_lib \<Rightarrow> incoming_file \<Rightarrow> filter_result" where
  "fileFilter path file =
     (let ext = toLowerCase (extname path (originalname file));
          mimetype = file_mimetype file
      in if ext \<notin> set ALLOWED_EXTENSIONS
         then Rejected (js ''Invalid file type. Only .pdf, .docx, .txt files are allowed.'')
         else if mimetype \<notin> set ALLOWED_MIME_TYPES
         then Rejected (js ''Invalid MIME type. File must be PDF, DOCX, or TXT.'')
         else Accepted)"

text \<open>The class \<open>[a-zA-Z0-9-_]\<close> of the sanitising expression: letters, digits, hyphen, underscore.\<close>

definition name_char :: "code_unit \<Rightarrow> bool" where
  "name_char c \<longleftrightarrow>
     (0x61 \<le> c \<and> c \<le> 0x7A) \<or> (0x41 \<le> c \<and> c \<le> 0x5A) \<or> (0x30 \<le> c \<and> c \<le> 0x39) \<or>
     c = 0x2D \<or> c = 0x5F"

text \<open>\<open>nameWithoutExt.replace(/[^a-zA-Z0-9-_]/g, "_")\<close>.\<close>

definition sanitize :: "jsstring \<Rightarrow> jsstring" where
  "sanitize nameWithoutExt = map (\<lambda>c. if name_char c then c else 0x5F) nameWithoutExt"

text \<open>The \<open>filename\<close> callback of the disk storage; \<open>timestamp\<close> is \<open>Date.now()\<close>.\<close>

definition storage_filename :: "path_lib \<Rightarrow> nat \<Rightarrow> incoming_file \<Rightarrow> jsstring" where
  "storage_filename path timestamp file =
     (let ext = extname path (originalname file);
          nameWithoutExt = basename path (originalname file) ext;
          sanitizedName = sanitize nameWithoutExt
      in sanitizedName @ js ''_'' @ show_nat timestamp @ ext)"

text \<open>The alphanumeric characters, for the specification's wording of the sanitising rule.\<close>

definition alphanumeric :: "code_unit \<Rightarrow> bool" where
  "alphanumeric c \<longleftrightarrow>
     (0x61 \<le> c \<and> c \<le> 0x7A) \<or> (0x41 \<le> c \<and> c \<le> 0x5A) \<or> (0x30 \<le> c \<and> c \<le> 0x39)"

text \<open>
  What \<open>multer\<close> (a library) does with one file under this configuration: it calls the file
  filter first; for an accepted file it streams the bytes to the disk storage under the
  generated name and raises the error \<open>LIMIT_FILE_SIZE\<close> when it finds the stream over
  \<open>limits.fileSize\<close>.  The library's own test is the parameter \<open>over_limit bytes limit\<close>;
  it holds whenever the stream is longer than the limit.
\<close>

datatype upload_outcome =
    Size_limit_error
  | Filter_error jsstring
  | Stored_file jsstring

definition uploadMiddleware ::
    "path_lib \<Rightarrow> (nat \<Rightarrow> nat \<Rightarrow> bool) \<Rightarrow> nat \<Rightarrow> incoming_file \<Rightarrow> upload_outcome" where
  "uploadMiddleware path over_limit timestamp file =
     (case fileFilter path file of
        Rejected msg \<Rightarrow> Filter_error msg
      | Accepted \<Rightarrow>
          if over_limit (file_size file) MAX_FILE_SIZE then Size_limit_error
          else Stored_file (js ''uploads/'' @ storage_filename path timestamp file))"

text \<open>
  \<open>uploadDocument\<close> behind \<open>handleMulterError\<close>.  \<open>uuid\<close> is the fresh identifier of
  \<open>uuidv4()\<close>, \<open>timestamp\<close> the time at which the storage names the file, \<open>now\<close> the time
  of \<open>new Date()\<close> in the handler, \<open>w\<close> the file system once the upload is stored.  Removing the stored file after a failed extraction touches the disk only.
\<close>

definition preview :: "jsstring \<Rightarrow> jsstring" where
  "preview t = take 200 t @ (if length t > 200 then js ''...'' else [])"

definition uploadDocument ::
    "files \<Rightarrow> jsstring \<Rightarrow> nat \<Rightarrow> sessions \<Rightarrow> incoming_file \<Rightarrow> jsstring
      \<Rightarrow> response \<times> sessions" where
  "uploadDocument w uuid now documentSessions file path' =
     (let result = processDocument w path' (file_mimetype file)
      in if \<not> success result
         then (error_response 400 ''Document processing failed''
                 (if or_empty (error result) = []
                  then js ''Failed to extract text from document''
                  else or_empty (error result)),
               documentSessions)
         else
           (\<lparr>status = 200,
             json = UploadResponse uuid (originalname file) (preview (text' result))
                      (js ''Document uploaded and processed successfully'')\<rparr>,
            documentSessions(uuid \<mapsto>
              \<lparr>sessionId = uuid, filename = originalname file, filepath = path',
               mimetype = file_mimetype file, doc_text = text' result, uploadedAt = now,
               conversationHistory = []\<rparr>)))"

definition upload_route ::
    "path_lib \<Rightarrow> (nat \<Rightarrow> nat \<Rightarrow> bool) \<Rightarrow> files \<Rightarrow> jsstring \<Rightarrow> nat \<Rightarrow> nat \<Rightarrow> sessions
      \<Rightarrow> incoming_file option \<Rightarrow> response \<times> sessions" where
  "upload_route path over_limit w uuid timestamp now documentSessions upload =
     (case upload of
        None \<Rightarrow>
          (error_response 400 ''No file uploaded'' (js ''Please upload a file''),
           documentSessions)
      | Some file \<Rightarrow>
          (case uploadMiddleware path over_limit timestamp file of
             Size_limit_error \<Rightarrow>
               (error_response 400 ''File too large''
                  (js ''File size must not exceed '' @ show_nat (MAX_FILE_SIZE div (1024 * 1024))
                   @ js ''MB''), documentSessions)
           | Filter_error msg \<Rightarrow>
               (error_response 400 ''File validation error'' msg, documentSessions)
           | Stored_file path' \<Rightarrow> uploadDocument w uuid now documentSessions file path'))"

subsection \<open>The sanitising rule as the specification words it, and example uploads\<close>

definition spec_sanitize :: "jsstring \<Rightarrow> jsstring" where
  "spec_sanitize nameWithoutExt = map (\<lambda>c. if alphanumeric c then c else 0x5F) nameWithoutExt"

definition spec_storage_filename :: "path_lib \<Rightarrow> nat \<Rightarrow> incoming_file \<Rightarrow> jsstring" where
  "spec_storage_filename path timestamp file =
     (let ext = extname path (originalname file);
          nameWithoutExt = basename path (originalname file) ext
      in spec_sanitize nameWithoutExt @ js ''_'' @ show_nat timestamp @ ext)"

text \<open>
  One instance of the library's size test, used to run the route on concrete files: the error
  is raised once the stream reaches the limit, as the current library does (earlier versions
  raise it only beyond the limit; both flag every stream longer than the limit).
\<close>

definition reaches_limit :: "nat \<Rightarrow> nat \<Rightarrow> bool" where
  "reaches_limit bytes limit \<longleftrightarrow> limit \<le> bytes"

definition upload_hyphen :: incoming_file where
  "upload_hyphen = \<lparr>originalname = js ''a-b c.txt'', file_mimetype = mime_txt, file_size = 5\<rparr>"

definition upload_mismatch :: incoming_file where
  "upload_mismatch = \<lparr>originalname = js ''report.pdf'', file_mimetype = mime_txt, file_size = 5\<rparr>"

definition upload_large :: incoming_file where
  "upload_large = \<lparr>originalname = js ''big.TXT'', file_mimetype = mime_txt, file_size = 10485761\<rparr>"

definition upload_exe :: incoming_file where
  "upload_exe = \<lparr>originalname = js ''run.exe'', file_mimetype = mime_txt, file_size = 5\<rparr>"

section \<open>Properties of trimming\<close>

lemma dropWhile_all_iff: "(\<forall>c\<in>set (dropWhile P xs). P c) \<longleftrightarrow> (\<forall>c\<in>set xs. P c)"
  by (induction xs) auto

lemma trim_Nil_iff: "trim s = [] \<longleftrightarrow> (\<forall>c\<in>set s. is_space c)"
  by (simp add: trim_def dropWhile_all_iff)

lemma trim_last: "trim s \<noteq> [] \<Longrightarrow> \<not> is_space (last (trim s))"
proof -
  assume ne: "trim s \<noteq> []"
  let ?d = "dropWhile is_space (rev (dropWhile is_space s))"
  from ne have "?d \<noteq> []" by (simp add: trim_def)
  then have "\<not> is_space (hd ?d)" by (rule hd_dropWhile)
  moreover have "last (trim s) = hd ?d"
    using \<open>?d \<noteq> []\<close> by (simp add: trim_def last_rev)
  ultimately show ?thesis by simp
qed

lemma trim_hd: "trim s \<noteq> [] \<Longrightarrow> \<not> is_space (hd (trim s))"
proof -
  assume ne: "trim s \<noteq> []"
  let ?t = "dropWhile is_space s"
  let ?d = "dropWhile is_space (rev ?t)"
  from ne have d: "?d \<noteq> []" by (simp add: trim_def)
  have t: "?t \<noteq> []"
  proof
    assume "?t = []"
    then have "?d = []" by (simp only: rev.simps dropWhile.simps)
    with d show False by simp
  qed
  then have nsp: "\<not> is_space (hd ?t)" by (rule hd_dropWhile)
  have "hd ?t \<in> set (rev ?t)" using t by simp
  then have "last ?d = last (rev ?t)" using nsp by (rule dropWhile_last)
  then have "last ?d = hd ?t" using t by (simp add: last_rev)
  moreover have "hd (trim s) = last ?d" using d by (simp add: trim_def hd_rev)
  ultimately show ?thesis using nsp by simp
qed

lemma trim_idem: "trim (trim s) = trim s"
proof (cases "trim s = []")
  case True
  then have "trim (trim s) = trim []" by simp
  also have "\<dots> = []" by (simp add: trim_def)
  finally show ?thesis using True by simp
next
  case False
  let ?u = "trim s"
  have h: "\<not> is_space (hd ?u)" using False by (rule trim_hd)
  have l: "\<not> is_space (last ?u)" using False by (rule trim_last)
  have 1: "dropWhile is_space ?u = ?u"
    using False h by (simp add: dropWhile_eq_self_iff)
  have "hd (rev ?u) = last ?u" using False by (simp add: hd_rev)
  then have 2: "dropWhile is_space (rev ?u) = rev ?u"
    using False l by (simp add: dropWhile_eq_self_iff)
  show ?thesis
    unfolding trim_def [of ?u] 1 2 by simp
qed

lemma blank_opt_Some: "blank_opt (Some s) \<longleftrightarrow> trim s = []"
  by (auto simp: blank_opt_def trim_def)

lemma finish_shape:
  "(\<And>s. r = Returns s \<Longrightarrow> trim s \<noteq> []) \<Longrightarrow>
   (success (finish r) \<and> text' (finish r) \<noteq> []) \<or> (\<not> success (finish r) \<and> text' (finish r) = [])"
  by (auto simp: finish_def split: outcome.splits thrown.splits)

lemma finish_trimmed: "success (finish r) \<Longrightarrow> trim (text' (finish r)) = text' (finish r)"
  by (auto simp: finish_def trim_idem split: outcome.splits thrown.splits)

lemma rethrow_not_Returns: "rethrow prefix t \<noteq> Returns s"
  by (cases t) (simp_all add: rethrow_def)

lemma not_blank_opt: "\<not> blank_opt t \<Longrightarrow> trim (the t) \<noteq> []"
  by (cases t) (simp_all add: blank_opt_def)

lemma extractTextFromPDF_nonblank: "extractTextFromPDF w p = Returns s \<Longrightarrow> trim s \<noteq> []"
  unfolding extractTextFromPDF_def
  by (cases "pdf_text w p") (auto simp: rethrow_not_Returns not_blank_opt split: if_splits)

lemma extractTextFromDOCX_nonblank: "extractTextFromDOCX w p = Returns s \<Longrightarrow> trim s \<noteq> []"
  unfolding extractTextFromDOCX_def
  by (cases "docx_value w p") (auto simp: rethrow_not_Returns not_blank_opt split: if_splits)

lemma extractTextFromTXT_nonblank: "extractTextFromTXT w p = Returns s \<Longrightarrow> trim s \<noteq> []"
  unfolding extractTextFromTXT_def
  by (cases "readFile_utf8 w p")
    (auto simp: rethrow_not_Returns blank_opt_Some split: if_splits)

lemma processDocument_cases:
  "processDocument w p m = finish (extractTextFromPDF w p) \<or>
   processDocument w p m = finish (extractTextFromDOCX w p) \<or>
   processDocument w p m = finish (extractTextFromTXT w p) \<or>
   (\<not> success (processDocument w p m) \<and> text' (processDocument w p m) = [])"
  by (simp add: processDocument_def)

section \<open>Claims about the extractor\<close>

text \<open>
  C4.  Whatever the path, the declared content type and the behaviour of the file system and
  the decoders, the result of \<open>processDocument\<close> has one of two shapes: success with a
  non-empty text that starts and ends with a non-whitespace character (so trimming it again
  changes nothing), or failure with the empty text.
\<close>

theorem processDocument_two_shapes:
  "(success (processDocument w p m) \<longrightarrow>
      text' (processDocument w p m) \<noteq> [] \<and>
      \<not> is_space (hd (text' (processDocument w p m))) \<and>
      \<not> is_space (last (text' (processDocument w p m))) \<and>
      trim (text' (processDocument w p m)) = text' (processDocument w p m)) \<and>
   (\<not> success (processDocument w p m) \<longrightarrow> text' (processDocument w p m) = [])"
proof -
  let ?r = "processDocument w p m"
  have shape: "(success ?r \<and> text' ?r \<noteq> []) \<or> (\<not> success ?r \<and> text' ?r = [])"
    using processDocument_cases [of w p m]
  proof (elim disjE)
    assume e: "?r = finish (extractTextFromPDF w p)"
    show ?thesis unfolding e by (rule finish_shape) (rule extractTextFromPDF_nonblank)
  next
    assume e: "?r = finish (extractTextFromDOCX w p)"
    show ?thesis unfolding e by (rule finish_shape) (rule extractTextFromDOCX_nonblank)
  next
    assume e: "?r = finish (extractTextFromTXT w p)"
    show ?thesis unfolding e by (rule finish_shape) (rule extractTextFromTXT_nonblank)
  next
    assume "\<not> success ?r \<and> text' ?r = []"
    then show ?thesis by blast
  qed
  have trimmed: "trim (text' ?r) = text' ?r" if s: "success ?r"
    using processDocument_cases [of w p m]
  proof (elim disjE)
    assume e: "?r = finish (extractTextFromPDF w p)"
    from s show ?thesis unfolding e by (rule finish_trimmed)
  next
    assume e: "?r = finish (extractTextFromDOCX w p)"
    from s show ?thesis unfolding e by (rule finish_trimmed)
  next
    assume e: "?r = finish (extractTextFromTXT w p)"
    from s show ?thesis unfolding e by (rule finish_trimmed)
  next
    assume "\<not> success ?r \<and> text' ?r = []"
    with s show ?thesis by blast
  qed
  show ?thesis
  proof (intro conjI impI)
    assume s: "success ?r"
    with shape show ne: "text' ?r \<noteq> []" by blast
    from trimmed [OF s] ne have "trim (text' ?r) \<noteq> []" by simp
    from trim_hd [OF this] trim_last [OF this] trimmed [OF s]
    show "\<not> is_space (hd (text' ?r))" and "\<not> is_space (last (text' ?r))" by simp_all
    from trimmed [OF s] show "trim (text' ?r) = text' ?r" .
  next
    assume "\<not> success ?r"
    with shape show "text' ?r = []" by blast
  qed
qed

theorem processDocument_two_shapes_witness:
  "success (processDocument files_hi (js ''a.txt'') mime_txt) \<and>
   text' (processDocument files_hi (js ''a.txt'') mime_txt) = js ''hi'' \<and>
   \<not> is_space (hd (js ''hi'')) \<and> \<not> is_space (last (js ''hi'')) \<and> trim (js ''hi'') = js ''hi'' \<and>
   \<not> success (processDocument files_hi (js ''a.png'') (js ''image/png'')) \<and>
   text' (processDocument files_hi (js ''a.png'') (js ''image/png'')) = []"
proof -
  have a: "success (processDocument files_hi (js ''a.txt'') mime_txt)"
    by (simp add: processDocument_def files_hi_def mime_pdf_def mime_docx_def mime_txt_def
        js_def extractTextFromTXT_def blank_opt_def trim_def is_space_def finish_def)
  have b: "text' (processDocument files_hi (js ''a.txt'') mime_txt) = js ''hi''"
    by (simp add: processDocument_def files_hi_def mime_pdf_def mime_docx_def mime_txt_def
        js_def extractTextFromTXT_def blank_opt_def trim_def is_space_def finish_def)
  have c: "\<not> success (processDocument files_hi (js ''a.png'') (js ''image/png''))"
    by (simp add: processDocument_def files_hi_def mime_pdf_def mime_docx_def mime_txt_def
        js_def)
  from a b c
    processDocument_two_shapes [of files_hi "js ''a.txt''" mime_txt]
    processDocument_two_shapes [of files_hi "js ''a.png''" "js ''image/png''"]
  show ?thesis by simp
qed

text \<open>
  C7.  For a readable plain-text file whose content has at least one non-whitespace
  character, \<open>processDocument\<close> succeeds and its text is the content trimmed; for a
  content made of whitespace only (the empty file included) it fails, with the empty text and
  the message of the empty-document error, and does not succeed with an empty string.
\<close>

theorem processDocument_txt_roundtrip:
  assumes "fs_access w p" and "readFile_utf8 w p = Returns body_text"
  shows "((\<exists>c\<in>set body_text. \<not> is_space c) \<longrightarrow>
            processDocument w p mime_txt =
              \<lparr>success = True, text' = trim body_text, error = None\<rparr>) \<and>
         ((\<forall>c\<in>set body_text. is_space c) \<longrightarrow>
            processDocument w p mime_txt =
              \<lparr>success = False, text' = [],
               error = Some (js ''Failed to read TXT file: TXT file is empty'')\<rparr>)"
proof -
  have m: "mime_txt \<noteq> mime_pdf" "mime_txt \<noteq> mime_docx"
    by (simp_all add: mime_txt_def mime_pdf_def mime_docx_def js_def)
  have p: "processDocument w p mime_txt = finish (extractTextFromTXT w p)"
    using assms(1) m by (simp add: processDocument_def)
  have yes: "trim body_text \<noteq> [] \<Longrightarrow> extractTextFromTXT w p = Returns body_text"
    using assms(2) by (simp add: extractTextFromTXT_def blank_opt_Some)
  have no: "trim body_text = [] \<Longrightarrow>
      extractTextFromTXT w p =
        Throws (Error (js ''Failed to read TXT file: '' @ js ''TXT file is empty''))"
    using assms(2) by (simp add: extractTextFromTXT_def blank_opt_Some rethrow_def)
  have cat: "js ''Failed to read TXT file: '' @ js ''TXT file is empty'' =
      js ''Failed to read TXT file: TXT file is empty''"
    by (simp add: js_def)
  show ?thesis
  proof (intro conjI impI)
    assume "\<exists>c\<in>set body_text. \<not> is_space c"
    then have "trim body_text \<noteq> []" by (simp add: trim_Nil_iff)
    from yes [OF this] show "processDocument w p mime_txt =
        \<lparr>success = True, text' = trim body_text, error = None\<rparr>"
      by (simp add: p finish_def)
  next
    assume "\<forall>c\<in>set body_text. is_space c"
    then have "trim body_text = []" by (simp add: trim_Nil_iff)
    from no [OF this] show "processDocument w p mime_txt =
        \<lparr>success = False, text' = [],
         error = Some (js ''Failed to read TXT file: TXT file is empty'')\<rparr>"
      by (simp add: p finish_def cat)
  qed
qed

theorem processDocument_txt_roundtrip_witness:
  "processDocument files_hi (js ''a.txt'') mime_txt =
     \<lparr>success = True, text' = js ''hi'', error = None\<rparr> \<and>
   processDocument files_ws (js ''b.txt'') mime_txt =
     \<lparr>success = False, text' = [],
      error = Some (js ''Failed to read TXT file: TXT file is empty'')\<rparr>"
proof -
  have 1: "fs_access files_hi (js ''a.txt'')"
    and 2: "readFile_utf8 files_hi (js ''a.txt'') = Returns (js '' hi '' @ [0xA])"
    by (simp_all add: files_hi_def)
  have 3: "fs_access files_ws (js ''b.txt'')"
    and 4: "readFile_utf8 files_ws (js ''b.txt'') = Returns [0x20, 0x9, 0xA, 0xA0]"
    by (simp_all add: files_ws_def)
  have 5: "\<exists>c\<in>set (js '' hi '' @ [0xA]). \<not> is_space c"
    by (simp add: js_def is_space_def)
  have 6: "\<forall>c\<in>set [0x20, 0x9, 0xA, 0xA0 :: code_unit]. is_space c"
    by (simp add: is_space_def)
  have 7: "trim (js '' hi '' @ [0xA]) = js ''hi''"
    by (simp add: js_def trim_def is_space_def)
  from processDocument_txt_roundtrip [OF 1 2] 5 7
    processDocument_txt_roundtrip [OF 3 4] 6
  show ?thesis by simp
qed

section \<open>The regular-expression steps against the positional reading\<close>

lemma find_map_comp: "List.find P (map f xs) = map_option f (List.find (P \<circ> f) xs)"
  by (induction xs) simp_all

lemma upt_Suc_shift: "[0..<Suc (Suc n)] = 0 # map Suc [0..<Suc n]"
  by (simp only: upt_conv_Cons [of 0 "Suc (Suc n)"] map_Suc_upt zero_less_Suc)

lemma spec_split_Nil:
  "spec_split pat [] = (if ci_prefix pat [] then Some ([], []) else None)"
  by (simp add: spec_split_def)

lemma spec_split_Cons:
  "spec_split pat (c # cs) =
     (if ci_prefix pat (c # cs) then Some ([], drop (length pat) (c # cs))
      else map_option (\<lambda>(a, b). (c # a, b)) (spec_split pat cs))"
proof -
  have "[0..<Suc (length (c # cs))] = 0 # map Suc [0..<Suc (length cs)]"
    by (simp only: length_Cons upt_Suc_shift)
  then show ?thesis
    unfolding spec_split_def
    by (simp add: find_map_comp comp_def option.map_comp del: upt_Suc)
qed

lemma after_ci_spec: "after_ci pat s = map_option snd (spec_split pat s)"
  by (induction s) (simp_all add: spec_split_Nil spec_split_Cons option.map_comp comp_def split_def)

lemma before_ci_spec:
  "before_ci pat s = (case spec_split pat s of None \<Rightarrow> s | Some (a, b) \<Rightarrow> a)"
  by (induction s) (auto simp: spec_split_Nil spec_split_Cons split: option.splits)

lemma space_not_letter: "is_space c \<Longrightarrow> \<not> (0x61 \<le> c \<and> c \<le> 0x7A)"
  unfolding is_space_def word_le_nat_alt by auto

lemma canonicalize_space: "is_space c \<Longrightarrow> canonicalize c = c"
  using space_not_letter [of c] by (simp add: canonicalize_def)

lemma not_ci_prefix_space: "is_space c \<Longrightarrow> \<not> ci_prefix CITATIONS (c # cs)"
proof
  assume sp: "is_space c" and "ci_prefix CITATIONS (c # cs)"
  then have "ci_eq 0x43 c" by (simp add: CITATIONS_def js_def)
  then have "c = 0x43" using canonicalize_space [OF sp] by (simp add: ci_eq_def canonicalize_def)
  with sp show False by (simp add: is_space_def)
qed

lemma before_ci_dropWhile:
  "before_ci CITATIONS (dropWhile is_space s) = dropWhile is_space (before_ci CITATIONS s)"
  by (induction s) (simp_all add: not_ci_prefix_space)

lemma trim_dropWhile: "trim (dropWhile is_space s) = trim s"
  by (simp add: trim_def dropWhile_idem)

lemma answerMatch_spec:
  "answerMatch raw =
     map_option (\<lambda>(pre, post). dropWhile is_space (before_ci CITATIONS post))
       (spec_split ANSWER raw)"
  by (simp add: answerMatch_def after_ci_spec before_ci_dropWhile option.map_comp comp_def
      split_def)

lemma answer_parse_response: "answer (parse_response raw) = spec_answer raw"
proof (cases "spec_split ANSWER raw")
  case None
  then show ?thesis
    by (simp add: parse_response_def Let_def answerMatch_spec spec_answer_def)
next
  case (Some pp)
  obtain pre post where pp: "pp = (pre, post)" by (cases pp)
  have "answer (parse_response raw) = trim (before_ci CITATIONS post)"
    using Some pp by (simp add: parse_response_def Let_def answerMatch_spec trim_dropWhile)
  also have "\<dots> = spec_answer raw"
    using Some pp by (simp add: spec_answer_def before_ci_spec split: option.splits prod.splits)
  finally show ?thesis .
qed

lemma foldl_push_citation:
  "foldl push_citation acc ms =
     acc @ dedup_first (filter (\<lambda>l. l \<noteq> [] \<and> l \<notin> set acc) (map clean ms))"
proof (induction ms arbitrary: acc)
  case Nil
  show ?case by simp
next
  case (Cons m ms)
  let ?P = "\<lambda>l. l \<noteq> [] \<and> l \<notin> set acc"
  show ?case
  proof (cases "clean m \<noteq> [] \<and> clean m \<notin> set acc")
    case True
    have f: "filter (\<lambda>l. l \<noteq> [] \<and> l \<notin> set (acc @ [clean m])) (map clean ms) =
        filter (\<lambda>y. y \<noteq> clean m) (filter ?P (map clean ms))"
      by (auto intro: filter_cong)
    have rhs: "dedup_first (filter ?P (map clean (m # ms))) =
        clean m # dedup_first (filter (\<lambda>y. y \<noteq> clean m) (filter ?P (map clean ms)))"
      using True by simp
    from True have "push_citation acc m = acc @ [clean m]"
      by (simp add: push_citation_def)
    then have "foldl push_citation acc (m # ms) = foldl push_citation (acc @ [clean m]) ms"
      by simp
    also have "\<dots> = (acc @ [clean m]) @
        dedup_first (filter (\<lambda>l. l \<noteq> [] \<and> l \<notin> set (acc @ [clean m])) (map clean ms))"
      by (rule Cons.IH)
    finally have "foldl push_citation acc (m # ms) =
        (acc @ [clean m]) @ dedup_first (filter (\<lambda>y. y \<noteq> clean m) (filter ?P (map clean ms)))"
      by (simp only: f)
    then show ?thesis by (simp only: rhs append_assoc append_Cons append_Nil)
  next
    case False
    then have "push_citation acc m = acc"
      by (auto simp: push_citation_def)
    then have "foldl push_citation acc (m # ms) = foldl push_citation acc ms"
      by simp
    then show ?thesis using False Cons.IH [of acc] by auto
  qed
qed

lemma collect_extract_labels: "collect [] txt = extract_labels txt"
proof -
  have "collect [] txt = foldl push_citation [] (bracket_matches txt)"
    by (cases "bracket_matches txt") (simp_all add: collect_def match_brackets_def)
  then show ?thesis by (simp add: foldl_push_citation extract_labels_def)
qed

lemma bracket_matches_no_close:
  "\<forall>x\<in>set s. x \<noteq> 0x5D \<Longrightarrow> bracket_matches s = []"
  by (induction s) simp_all

lemma space_not_bracket: "is_space c \<Longrightarrow> c \<noteq> 0x5B \<and> c \<noteq> 0x5D"
  by (auto simp: is_space_def)

lemma not_space_open: "\<not> is_space 0x5B"
  by (simp add: is_space_def)

lemma bracket_matches_dropWhile:
  "bracket_matches (dropWhile is_space s) = bracket_matches s"
  by (induction s) (auto simp: not_space_open)

lemma bracket_matches_append_spaces:
  assumes ws: "\<forall>x\<in>set ws. is_space x"
  shows "bracket_matches (t @ ws) = bracket_matches t"
proof (induction t rule: bracket_matches.induct)
  case 1
  have "\<forall>x\<in>set ws. x \<noteq> 0x5D" using ws space_not_bracket by blast
  then show ?case by (simp add: bracket_matches_no_close)
next
  case (2 c cs)
  let ?N = "\<lambda>x::code_unit. x \<noteq> 0x5D"
  have nws: "\<forall>x\<in>set ws. ?N x" using ws space_not_bracket by blast
  show ?case
  proof (cases "dropWhile ?N cs = []")
    case True
    then have all: "\<forall>x\<in>set cs. ?N x" by simp
    then have "dropWhile ?N (cs @ ws) = []" using nws by auto
    then have "bracket_matches ((c # cs) @ ws) = bracket_matches (cs @ ws)" by simp
    also have "\<dots> = bracket_matches cs" using True "2.IH"(2) by simp
    also have "\<dots> = bracket_matches (c # cs)" using True by simp
    finally show ?thesis .
  next
    case False
    then obtain x where x: "x \<in> set cs" "\<not> ?N x" by auto
    have tk: "takeWhile ?N (cs @ ws) = takeWhile ?N cs"
      using x by (rule takeWhile_append1)
    have dr: "dropWhile ?N (cs @ ws) = dropWhile ?N cs @ ws"
      using x by (rule dropWhile_append1)
    have tl: "tl (dropWhile ?N cs @ ws) = tl (dropWhile ?N cs) @ ws"
      using False by simp
    show ?thesis
    proof (cases "c = 0x5B \<and> takeWhile ?N cs \<noteq> []")
      case True
      with False "2.IH"(1)
      have "bracket_matches (tl (dropWhile ?N cs) @ ws) = bracket_matches (tl (dropWhile ?N cs))"
        by simp
      with True False show ?thesis by (simp add: tk dr tl)
    next
      case F2: False
      with "2.IH"(2) have "bracket_matches (cs @ ws) = bracket_matches cs" by auto
      with F2 show ?thesis by (auto simp: tk dr)
    qed
  qed
qed

lemma bracket_matches_trim: "bracket_matches (trim s) = bracket_matches s"
proof -
  let ?t = "dropWhile is_space s"
  have "?t = rev (dropWhile is_space (rev ?t)) @ rev (takeWhile is_space (rev ?t))"
    by (metis rev_append rev_rev_ident takeWhile_dropWhile_id)
  moreover have "\<forall>x\<in>set (rev (takeWhile is_space (rev ?t))). is_space x"
    by (auto dest: set_takeWhileD)
  ultimately have "bracket_matches ?t = bracket_matches (rev (dropWhile is_space (rev ?t)))"
    using bracket_matches_append_spaces by metis
  then show ?thesis by (simp add: trim_def bracket_matches_dropWhile)
qed

lemma extract_labels_trim: "extract_labels (trim s) = extract_labels s"
  by (simp add: extract_labels_def bracket_matches_trim)

lemma citationsMatch_spec:
  "citationsMatch raw = map_option (\<lambda>(pre, sec). dropWhile is_space sec) (spec_split CITATIONS raw)"
  by (simp add: citationsMatch_def after_ci_spec option.map_comp comp_def split_def)

lemma citations_parse_response: "citations (parse_response raw) = two_pass_citations raw"
proof -
  have first: "(case citationsMatch raw of Some g \<Rightarrow> trim g | None \<Rightarrow> []) = ct \<Longrightarrow>
      (if ct \<noteq> [] then collect [] ct else []) =
      (case spec_split CITATIONS raw of None \<Rightarrow> [] | Some (pre, sec) \<Rightarrow> extract_labels sec)" for ct
  proof (cases "spec_split CITATIONS raw")
    case None
    assume "(case citationsMatch raw of Some g \<Rightarrow> trim g | None \<Rightarrow> []) = ct"
    with None show ?thesis by (simp add: citationsMatch_spec)
  next
    case (Some pp)
    assume ct: "(case citationsMatch raw of Some g \<Rightarrow> trim g | None \<Rightarrow> []) = ct"
    obtain pre sec where pp: "pp = (pre, sec)" by (cases pp)
    from ct Some pp have c: "ct = trim sec" by (simp add: citationsMatch_spec trim_dropWhile)
    have "extract_labels [] = []" by (simp add: extract_labels_def)
    then have "(if ct \<noteq> [] then collect [] ct else []) = extract_labels ct"
      by (simp add: collect_extract_labels)
    also have "\<dots> = extract_labels sec" by (simp add: c extract_labels_trim)
    finally show ?thesis using Some pp by simp
  qed
  show ?thesis
    unfolding two_pass_citations_def first [OF refl, symmetric] answer_parse_response [symmetric]
    by (simp add: parse_response_def Let_def collect_extract_labels)
qed

lemma set_dedup_first: "set (dedup_first xs) = set xs"
  by (induction xs rule: dedup_first.induct) auto

lemma distinct_dedup_first: "distinct (dedup_first xs)"
  by (induction xs rule: dedup_first.induct) (auto simp: set_dedup_first)

text \<open>The definitions unfolded to run the parser on a concrete text.\<close>

lemmas parse_eval = js_def trim_def is_space_def parse_response_def answerMatch_def
  citationsMatch_def ANSWER_def CITATIONS_def ci_eq_def canonicalize_def collect_def
  match_brackets_def push_citation_def clean_def Let_def

section \<open>The export loop\<close>

lemma at_Some: "i < length xs \<Longrightarrow> at xs i = Some (xs ! i)"
  by (simp add: at_def)

lemma at_None: "length xs \<le> i \<Longrightarrow> at xs i = None"
  by (simp add: at_def)

lemma qa_loop_pairs:
  "i = 2 * j \<Longrightarrow>
   qa_loop h i md =
     md @ concat (map (\<lambda>j. qa_block (2 * j) (h ! (2 * j)) (h ! (2 * j + 1)))
                    [j..<length h div 2])"
proof (induction h i md arbitrary: j rule: qa_loop.induct)
  case (1 h i md)
  let ?blk = "\<lambda>j. qa_block (2 * j) (h ! (2 * j)) (h ! (2 * j + 1))"
  show ?case
  proof (cases "i < length h")
    case False
    then have "length h div 2 \<le> j" using "1.prems" by auto
    then have e: "[j..<length h div 2] = []" by simp
    have "qa_loop h i md = md" using False by (simp add: qa_loop.simps)
    then show ?thesis unfolding e by simp
  next
    case True
    note step = qa_loop.simps [of h i md]
    have next_even: "i + 2 = 2 * Suc j" using "1.prems" by simp
    show ?thesis
    proof (cases "i + 1 < length h")
      case paired: True
      then have j: "j < length h div 2" using "1.prems" by auto
      have "qa_loop h i md = qa_loop h (i + 2) (md @ qa_block i (h ! i) (h ! (i + 1)))"
        using True paired by (simp add: step at_Some)
      also have "\<dots> = (md @ qa_block i (h ! i) (h ! (i + 1))) @
          concat (map ?blk [Suc j..<length h div 2])"
        using "1.IH" [OF True next_even] True paired by (simp add: at_Some)
      also have "\<dots> = md @ concat (map ?blk [j..<length h div 2])"
        using j "1.prems" by (simp add: upt_conv_Cons)
      finally show ?thesis .
    next
      case unpaired: False
      then have n: "length h div 2 \<le> j" using "1.prems" True by auto
      have "qa_loop h i md = qa_loop h (i + 2) md"
        using True unpaired by (simp add: step at_Some at_None)
      also have "\<dots> = md @ concat (map ?blk [Suc j..<length h div 2])"
        using "1.IH" [OF True next_even] True unpaired by (simp add: at_Some at_None)
      also have "\<dots> = md @ concat (map ?blk [j..<length h div 2])"
        using n by simp
      finally show ?thesis .
    qed
  qed
qed

section \<open>The chat handler and the history\<close>

lemma chat_unchanged_on_error:
  "json (fst (chatWithDocument ai S req)) = ErrorResponse e m \<Longrightarrow>
   snd (chatWithDocument ai S req) = S"
  by (auto simp: chatWithDocument_def Let_def error_response_def split: option.splits if_splits)

lemma chat_response_cases:
  "(\<exists>e m. json (fst (chatWithDocument ai S req)) = ErrorResponse e m) \<or>
   (\<exists>a c h. json (fst (chatWithDocument ai S req)) = ChatResponse a c h)"
  by (auto simp: chatWithDocument_def Let_def error_response_def split: option.splits)

lemma chat_success:
  assumes "json (fst (chatWithDocument ai S req)) = ChatResponse a c h"
  shows "\<exists>s. S (or_empty (req_sessionId req)) = Some s \<and>
             h = conversationHistory s @ turns (or_empty (req_question req), a) \<and>
             snd (chatWithDocument ai S req) =
               S(or_empty (req_sessionId req) \<mapsto> s\<lparr>conversationHistory := h\<rparr>)"
  using assms
  by (auto simp: chatWithDocument_def Let_def error_response_def turns_def
      split: option.splits if_splits)

lemma chat_calls_history:
  assumes "\<forall>call\<in>set calls. req_sessionId (snd call) = Some sid"
    and "S sid = Some s" and "chat_calls S calls = (rs, S')"
  shows "\<exists>s'. S' sid = Some s' \<and>
           conversationHistory s' =
             conversationHistory s @ concat (map turns (exchanges calls rs))"
  using assms
proof (induction calls arbitrary: S s rs)
  case Nil
  then show ?case by (simp add: exchanges_def List.map_filter_simps)
next
  case (Cons call calls)
  obtain ai req where call: "call = (ai, req)" by (cases call)
  obtain r S1 where step: "chatWithDocument ai S req = (r, S1)"
    by (cases "chatWithDocument ai S req")
  obtain rs' S2 where rest: "chat_calls S1 calls = (rs', S2)"
    by (cases "chat_calls S1 calls")
  from Cons.prems(3) call step rest have rs: "rs = r # rs'" and S': "S' = S2" by simp_all
  from Cons.prems(1) call have sidreq: "or_empty (req_sessionId req) = sid"
    by (simp add: or_empty_def)
  from Cons.prems(1) have all: "\<forall>call\<in>set calls. req_sessionId (snd call) = Some sid" by simp
  show ?case
  proof (cases "json r")
    case (ErrorResponse e m)
    with step have "S1 = S" using chat_unchanged_on_error [of ai S req e m] by simp
    with rest S' have "chat_calls S calls = (rs', S')" by simp
    from Cons.IH [of S s rs', OF all Cons.prems(2) this] S'
    obtain s' where "S2 sid = Some s'" and
      "conversationHistory s' = conversationHistory s @ concat (map turns (exchanges calls rs'))"
      by blast
    moreover have "exchanges (call # calls) rs = exchanges calls rs'"
      using ErrorResponse by (simp add: rs exchanges_def answered_def List.map_filter_simps)
    ultimately show ?thesis using S' by simp
  next
    case (ChatResponse a c h)
    with step chat_success [of ai S req a c h] sidreq Cons.prems(2)
    have h: "h = conversationHistory s @ turns (or_empty (req_question req), a)"
      and S1: "S1 = S(sid \<mapsto> s\<lparr>conversationHistory := h\<rparr>)"
      by auto
    from S1 have "S1 sid = Some (s\<lparr>conversationHistory := h\<rparr>)" by simp
    from rest S' have "chat_calls S1 calls = (rs', S')" by simp
    from Cons.IH [of S1 "s\<lparr>conversationHistory := h\<rparr>" rs', OF all \<open>S1 sid = _\<close> this] S'
    obtain s' where s': "S2 sid = Some s'" and
      hist: "conversationHistory s' = h @ concat (map turns (exchanges calls rs'))"
      by auto
    have "exchanges (call # calls) rs = (or_empty (req_question req), a) # exchanges calls rs'"
      using ChatResponse by (simp add: rs call exchanges_def answered_def List.map_filter_simps)
    with s' hist h S' show ?thesis by simp
  next
    case (UploadResponse x1 x2 x3 x4)
    with chat_response_cases [of ai S req] step show ?thesis by simp
  next
    case (ExportNotesResponse x1 x2)
    with chat_response_cases [of ai S req] step show ?thesis by simp
  qed
qed

lemma concat_turns_length: "length (concat (map turns qa)) = 2 * length qa"
  by (induction qa) (simp_all add: turns_def)

lemma concat_turns_nth:
  "i < length qa \<Longrightarrow>
   concat (map turns qa) ! (2 * i) = \<lparr>role = User, content = fst (qa ! i)\<rparr> \<and>
   concat (map turns qa) ! (2 * i + 1) = \<lparr>role = Model, content = snd (qa ! i)\<rparr>"
proof (induction qa arbitrary: i)
  case Nil
  then show ?case by simp
next
  case (Cons x qa)
  show ?case
  proof (cases i)
    case 0
    then show ?thesis by (simp add: turns_def)
  next
    case (Suc j)
    with Cons.prems have j: "j < length qa" by simp
    obtain u v where uv: "turns x = [u, v]" by (simp add: turns_def)
    from Cons.IH [OF j] Suc show ?thesis by (simp add: uv)
  qed
qed

section \<open>Claims about the transcript export\<close>

text \<open>
  C10.  For a session whose history has the odd length \<open>2k + 1\<close>, the export answers with a
  markdown that is the head of the document (title line, document name, date, rule) followed
  by exactly \<open>k\<close> blocks, one for each pair \<open>(history[2j], history[2j+1])\<close>, \<open>j < k\<close>, in order.
  Block \<open>j\<close> is the heading \<open>## Q\<close> with the number \<open>j + 1\<close> and the content of the question,
  a blank line, the line \<open>**Answer:**\<close>, a blank line, the content of the answer, a blank
  line, a rule and a blank line.  The last, unpaired turn \<open>t\<close> contributes nothing: the
  markdown is written without it.  (\<open>0xA\<close> is the line feed.)
\<close>

theorem exportNotes_odd_history:
  assumes "S sid = Some s" and "sid \<noteq> []"
    and "conversationHistory s = h @ [t]" and "length h = 2 * k"
  shows "fst (exportNotes L S (Some sid)) =
           \<lparr>status = 200,
            json = ExportNotesResponse
              (js ''# Document Q&A Notes'' @ [0xA, 0xA]
               @ js ''**Document:** '' @ filename s @ [0xA]
               @ js ''**Date:** '' @ L (uploadedAt s) @ [0xA, 0xA]
               @ js ''---'' @ [0xA, 0xA]
               @ concat (map (\<lambda>j. js ''## Q'' @ show_nat (j + 1) @ js '': ''
                                  @ content (h ! (2 * j)) @ [0xA, 0xA]
                                  @ js ''**Answer:**'' @ [0xA, 0xA]
                                  @ content (h ! (2 * j + 1)) @ [0xA, 0xA]
                                  @ js ''---'' @ [0xA, 0xA])
                           [0..<k]))
              (strip_extension (filename s) @ js ''_notes.md'')\<rparr>"
proof -
  let ?H = "h @ [t]"
  have len: "length ?H div 2 = k" using assms(4) by simp
  have "render_markdown L s = qa_loop ?H 0 (markdown_head L s)"
    using assms(3) by (simp add: render_markdown_def)
  also have "\<dots> = markdown_head L s @
      concat (map (\<lambda>j. qa_block (2 * j) (?H ! (2 * j)) (?H ! (2 * j + 1))) [0..<k])"
    using qa_loop_pairs [of 0 0 ?H "markdown_head L s"] len by simp
  also have "map (\<lambda>j. qa_block (2 * j) (?H ! (2 * j)) (?H ! (2 * j + 1))) [0..<k] =
      map (\<lambda>j. qa_block (2 * j) (h ! (2 * j)) (h ! (2 * j + 1))) [0..<k]"
    using assms(4) by (auto simp: nth_append)
  also have "\<dots> =
      map (\<lambda>j. js ''## Q'' @ show_nat (j + 1) @ js '': ''
                @ content (h ! (2 * j)) @ [0xA, 0xA]
                @ js ''**Answer:**'' @ [0xA, 0xA]
                @ content (h ! (2 * j + 1)) @ [0xA, 0xA]
                @ js ''---'' @ [0xA, 0xA]) [0..<k]"
    by (simp add: qa_block_def newline_def)
  finally have "render_markdown L s =
      js ''# Document Q&A Notes'' @ [0xA, 0xA]
      @ js ''**Document:** '' @ filename s @ [0xA]
      @ js ''**Date:** '' @ L (uploadedAt s) @ [0xA, 0xA]
      @ js ''---'' @ [0xA, 0xA]
      @ concat (map (\<lambda>j. js ''## Q'' @ show_nat (j + 1) @ js '': ''
                         @ content (h ! (2 * j)) @ [0xA, 0xA]
                         @ js ''**Answer:**'' @ [0xA, 0xA]
                         @ content (h ! (2 * j + 1)) @ [0xA, 0xA]
                         @ js ''---'' @ [0xA, 0xA]) [0..<k])"
    by (simp add: markdown_head_def newline_def)
  then show ?thesis
    using assms(1,2) by (simp add: exportNotes_def or_empty_def)
qed

text \<open>
  The export of a history of three turns, written out code unit by code unit: one block for
  the first two turns, nothing for the third (\<open>Why?\<close>).
\<close>

theorem exportNotes_odd_history_witness:
  "fst (exportNotes epoch store3 (Some (js ''s1''))) =
     \<lparr>status = 200,
      json = ExportNotesResponse
        (js ''# Document Q&A Notes'' @ [0xA, 0xA]
         @ js ''**Document:** notes.txt'' @ [0xA]
         @ js ''**Date:** 1/1/1970, 12:00:00 AM'' @ [0xA, 0xA]
         @ js ''---'' @ [0xA, 0xA]
         @ js ''## Q1: What?'' @ [0xA, 0xA]
         @ js ''**Answer:**'' @ [0xA, 0xA]
         @ js ''This.'' @ [0xA, 0xA]
         @ js ''---'' @ [0xA, 0xA])
        (js ''notes_notes.md'')\<rparr> \<and>
   js ''## Q1: What?'' = [0x23, 0x23, 0x20, 0x51, 0x31, 0x3A, 0x20, 0x57, 0x68, 0x61, 0x74, 0x3F]"
proof -
  have 1: "store3 (js ''s1'') = Some session3" by (simp add: store3_def)
  have 2: "js ''s1'' \<noteq> []" by (simp add: js_def)
  have 3: "conversationHistory session3 =
      [\<lparr>role = User, content = js ''What?''\<rparr>, \<lparr>role = Model, content = js ''This.''\<rparr>]
      @ [\<lparr>role = User, content = js ''Why?''\<rparr>]"
    by (simp add: session3_def)
  have 4: "length [\<lparr>role = User, content = js ''What?''\<rparr>, \<lparr>role = Model, content = js ''This.''\<rparr>]
      = 2 * 1" by simp
  have 5: "js ''## Q1: What?'' =
      [0x23, 0x23, 0x20, 0x51, 0x31, 0x3A, 0x20, 0x57, 0x68, 0x61, 0x74, 0x3F]"
    by (simp add: js_def)
  from exportNotes_odd_history [of store3 "js ''s1''" session3 _ _ 1 epoch, OF 1 2 3 4] 5
  show ?thesis
    by (simp add: upt_rec session3_def session0_def epoch_def strip_extension_def
        show_nat.simps js_def)
qed

text \<open>
  C8.  The export handler leaves the session table exactly as it found it, so a second call
  on the unchanged table returns the same response: the same markdown, code unit by code
  unit, and the same file name.  (The rendering of the date is taken to be the same in both
  calls: same process, same locale, same time zone.)
\<close>

theorem exportNotes_read_only:
  "snd (exportNotes L S sid) = S \<and>
   fst (exportNotes L (snd (exportNotes L S sid)) sid) = fst (exportNotes L S sid)"
proof -
  have "snd (exportNotes L S sid) = S"
    by (simp add: exportNotes_def split: option.splits)
  then show ?thesis by simp
qed

theorem exportNotes_read_only_witness:
  "snd (exportNotes epoch store3 (Some (js ''s1''))) = store3 \<and>
   fst (exportNotes epoch (snd (exportNotes epoch store3 (Some (js ''s1'')))) (Some (js ''s1''))) =
   fst (exportNotes epoch store3 (Some (js ''s1'')))"
  using exportNotes_read_only [of epoch store3 "Some (js ''s1'')"] by simp

section \<open>Claims about the chat handler\<close>

text \<open>
  C3.  Start from a session with an empty history and run any sequence of chat requests for it.
  With \<open>N\<close> the number of requests answered by a chat response, the history then has length
  \<open>2N\<close>; entry \<open>2i\<close> is the user turn with the question of the \<open>i\<close>-th answered request and
  entry \<open>2i + 1\<close> the model turn with its answer.  A request answered by an error response
  leaves the session table unchanged, and a chat response carries the history as it is after
  the two turns were added.
\<close>

theorem history_pairing:
  assumes "S sid = Some s" and "conversationHistory s = []"
    and "\<forall>call\<in>set calls. req_sessionId (snd call) = Some sid"
    and "chat_calls S calls = (rs, S')"
  shows "\<exists>s'. S' sid = Some s' \<and>
           length (conversationHistory s') = 2 * length (exchanges calls rs) \<and>
           (\<forall>i<length (exchanges calls rs).
              conversationHistory s' ! (2 * i) =
                \<lparr>role = User, content = fst (exchanges calls rs ! i)\<rparr> \<and>
              conversationHistory s' ! (2 * i + 1) =
                \<lparr>role = Model, content = snd (exchanges calls rs ! i)\<rparr>) \<and>
           (\<forall>ai req e m. json (fst (chatWithDocument ai S req)) = ErrorResponse e m \<longrightarrow>
              snd (chatWithDocument ai S req) = S) \<and>
           (\<forall>ai req a c h. json (fst (chatWithDocument ai S req)) = ChatResponse a c h \<longrightarrow>
              (\<exists>t. snd (chatWithDocument ai S req) (or_empty (req_sessionId req)) = Some t \<and>
                   conversationHistory t = h))"
proof -
  from chat_calls_history [OF assms(3) assms(1) assms(4)] assms(2)
  obtain s' where s': "S' sid = Some s'"
    and h: "conversationHistory s' = concat (map turns (exchanges calls rs))"
    by auto
  have post: "\<exists>t. snd (chatWithDocument ai S req) (or_empty (req_sessionId req)) = Some t \<and>
      conversationHistory t = h"
    if "json (fst (chatWithDocument ai S req)) = ChatResponse a c h" for ai req a c h
    using chat_success [OF that] by auto
  show ?thesis
  proof (rule exI [of _ s'], intro conjI allI impI)
    show "S' sid = Some s'" by (rule s')
    show "length (conversationHistory s') = 2 * length (exchanges calls rs)"
      by (simp add: h concat_turns_length)
  next
    fix i assume "i < length (exchanges calls rs)"
    from concat_turns_nth [OF this]
    show "conversationHistory s' ! (2 * i) =
        \<lparr>role = User, content = fst (exchanges calls rs ! i)\<rparr>"
      and "conversationHistory s' ! (2 * i + 1) =
        \<lparr>role = Model, content = snd (exchanges calls rs ! i)\<rparr>"
      by (simp_all add: h)
  next
    fix ai req e m
    assume "json (fst (chatWithDocument ai S req)) = ErrorResponse e m"
    then show "snd (chatWithDocument ai S req) = S" by (rule chat_unchanged_on_error)
  next
    fix ai req a c h
    assume "json (fst (chatWithDocument ai S req)) = ChatResponse a c h"
    then show "\<exists>t. snd (chatWithDocument ai S req) (or_empty (req_sessionId req)) = Some t \<and>
        conversationHistory t = h"
      by (rule post)
  qed
qed

theorem history_pairing_witness:
  "chat_calls store0 calls0 =
     (responses0, [js ''s1'' \<mapsto> session0\<lparr>conversationHistory := history4\<rparr>]) \<and>
   exchanges calls0 responses0 = [(js ''Q1'', js ''B [S1]''), (js ''Q3'', js ''No'')] \<and>
   (\<exists>s'. [js ''s1'' \<mapsto> session0\<lparr>conversationHistory := history4\<rparr>] (js ''s1'') = Some s' \<and>
      length (conversationHistory s') = 2 * 2 \<and>
      conversationHistory s' ! (2 * 1) = \<lparr>role = User, content = js ''Q3''\<rparr> \<and>
      conversationHistory s' ! (2 * 1 + 1) = \<lparr>role = Model, content = js ''No''\<rparr>)"
proof -
  have 1: "store0 (js ''s1'') = Some session0" by (simp add: store0_def)
  have 2: "conversationHistory session0 = []" by (simp add: session0_def)
  have 3: "\<forall>call\<in>set calls0. req_sessionId (snd call) = Some (js ''s1'')"
    by (simp add: calls0_def ask_def)
  have 4: "chat_calls store0 calls0 =
      (responses0, [js ''s1'' \<mapsto> session0\<lparr>conversationHistory := history4\<rparr>])"
    by (simp add: parse_eval chat_calls.simps calls0_def store0_def session0_def ask_def
        ai_says_def ai_down_def chatWithDocument_def askQuestion_def blank_def or_empty_def
        failure_def error_response_def mime_txt_def responses0_def history4_def)
  have 5: "exchanges calls0 responses0 = [(js ''Q1'', js ''B [S1]''), (js ''Q3'', js ''No'')]"
    by (simp add: exchanges_def answered_def List.map_filter_simps calls0_def responses0_def
        ask_def or_empty_def error_response_def)
  from history_pairing [OF 1 2 3 4] 4 5 show ?thesis by (simp add: history4_def)
qed

text \<open>
  C5, as the code has it.  With \<open>sid\<close> and \<open>q\<close> the two fields of the request (an absent field
  counts as empty):
  \<^item> an empty \<open>sid\<close> or an empty \<open>q\<close> is answered 400 (empty input), whatever the table holds;
  \<^item> otherwise an unknown \<open>sid\<close> is answered 404 (not found), also when \<open>q\<close> is only whitespace;
  \<^item> otherwise a whitespace-only \<open>q\<close> fails with the message of the empty question, as a 500;
  \<^item> otherwise, for a session with a non-blank text: a missing credential fails as a
    configuration error; a throwing model call fails as an upstream error (500); a model call
    that returns a non-empty text succeeds (200).
  The case of a model call that returns no content is left out of this statement.
\<close>

theorem chat_outcomes:
  "let sid = or_empty (req_sessionId req); q = or_empty (req_question req);
       r = fst (chatWithDocument ai S req)
   in (sid = [] \<or> q = [] \<longrightarrow> kind_of r = EmptyInput \<and> status r = 400) \<and>
      (sid \<noteq> [] \<and> q \<noteq> [] \<and> S sid = None \<longrightarrow> kind_of r = NotFound \<and> status r = 404) \<and>
      (\<forall>s. sid \<noteq> [] \<and> q \<noteq> [] \<and> S sid = Some s \<longrightarrow>
         (blank q \<longrightarrow> kind_of r = EmptyInput \<and> status r = 500) \<and>
         (\<not> blank q \<and> \<not> blank (doc_text s) \<and> or_empty (OPENAI_API_KEY ai) = [] \<longrightarrow>
            kind_of r = ConfigurationError \<and> status r = 500) \<and>
         (\<not> blank q \<and> \<not> blank (doc_text s) \<and> or_empty (OPENAI_API_KEY ai) \<noteq> [] \<longrightarrow>
            (\<forall>t. create ai (build_messages q (doc_text s) (conversationHistory s)) = Throws t \<longrightarrow>
               kind_of r = UpstreamError \<and> status r = 500) \<and>
            (\<forall>raw. raw \<noteq> [] \<and>
               create ai (build_messages q (doc_text s) (conversationHistory s)) =
                 Returns (Some raw) \<longrightarrow>
               kind_of r = Succeeds \<and> status r = 200)))"
proof -
  define sid where "sid = or_empty (req_sessionId req)"
  define q where "q = or_empty (req_question req)"
  define r where "r = fst (chatWithDocument ai S req)"
  have a: "kind_of r = EmptyInput \<and> status r = 400" if "sid = [] \<or> q = []"
    using that unfolding r_def sid_def q_def
    by (auto simp: chatWithDocument_def kind_of_def error_response_def)
  have b: "kind_of r = NotFound \<and> status r = 404" if "sid \<noteq> []" "q \<noteq> []" "S sid = None"
    using that unfolding r_def sid_def q_def
    by (simp add: chatWithDocument_def kind_of_def error_response_def Let_def)
  have run: "r = (let result = askQuestion ai q (doc_text s) (conversationHistory s)
                 in if \<not> ai_success result \<or> data result = None
                    then error_response 500 ''AI service error''
                            (if or_empty (ai_error result) = []
                             then js ''Failed to generate response''
                             else or_empty (ai_error result))
                    else \<lparr>status = 200,
                          json = ChatResponse (answer (the (data result)))
                                   (citations (the (data result)))
                                   (conversationHistory s
                                    @ [\<lparr>role = User, content = q\<rparr>,
                                       \<lparr>role = Model, content = answer (the (data result))\<rparr>])\<rparr>)"
    if "sid \<noteq> []" "q \<noteq> []" "S sid = Some s" for s
    using that unfolding r_def sid_def q_def
    by (simp add: chatWithDocument_def Let_def)
  have fail: "kind_of (error_response 500 ''AI service error'' m) =
      (if m = js ''Question cannot be empty'' then EmptyInput
       else if m = js ''OPENAI_API_KEY is not configured'' then ConfigurationError
       else if take 27 m = js ''Failed to answer question: '' then UpstreamError
       else OtherFailure)" for m
    by (simp add: kind_of_def error_response_def)
  have c: "kind_of r = EmptyInput \<and> status r = 500"
    if "sid \<noteq> []" "q \<noteq> []" "S sid = Some s" "blank q" for s
  proof -
    have "askQuestion ai q (doc_text s) (conversationHistory s) =
        failure (js ''Question cannot be empty'')"
      using that(4) by (simp add: askQuestion_def)
    then have "r = error_response 500 ''AI service error'' (js ''Question cannot be empty'')"
      using run [OF that(1-3)] by (simp add: failure_def or_empty_def js_def)
    then show ?thesis by (simp add: fail) (simp add: error_response_def)
  qed
  have d: "kind_of r = ConfigurationError \<and> status r = 500"
    if "sid \<noteq> []" "q \<noteq> []" "S sid = Some s" "\<not> blank q" "\<not> blank (doc_text s)"
      "or_empty (OPENAI_API_KEY ai) = []" for s
  proof -
    have "askQuestion ai q (doc_text s) (conversationHistory s) =
        failure (js ''OPENAI_API_KEY is not configured'')"
      using that(4-6) by (simp add: askQuestion_def)
    then have "r = error_response 500 ''AI service error''
        (js ''OPENAI_API_KEY is not configured'')"
      using run [OF that(1-3)] by (simp add: failure_def or_empty_def js_def)
    moreover have "js ''OPENAI_API_KEY is not configured'' \<noteq> js ''Question cannot be empty''"
      by (simp add: js_def)
    ultimately show ?thesis by (simp add: fail) (simp add: error_response_def)
  qed
  have e: "kind_of r = UpstreamError \<and> status r = 500"
    if p: "sid \<noteq> []" "q \<noteq> []" "S sid = Some s" "\<not> blank q" "\<not> blank (doc_text s)"
      "or_empty (OPENAI_API_KEY ai) \<noteq> []"
      "create ai (build_messages q (doc_text s) (conversationHistory s)) = Throws t" for s t
  proof -
    obtain m where m: "askQuestion ai q (doc_text s) (conversationHistory s) =
        failure (js ''Failed to answer question: '' @ m)"
      using p(4-7) by (cases t) (simp_all add: askQuestion_def)
    let ?msg = "js ''Failed to answer question: '' @ m"
    have ne: "js ''Failed to answer question: '' \<noteq> []" by (simp add: js_def)
    have "r = error_response 500 ''AI service error'' ?msg"
      using run [OF p(1-3)] m ne by (simp add: failure_def or_empty_def)
    moreover have "?msg \<noteq> js ''Question cannot be empty''"
      and "?msg \<noteq> js ''OPENAI_API_KEY is not configured''"
      and "take 27 ?msg = js ''Failed to answer question: ''"
      by (simp_all add: js_def)
    ultimately show ?thesis by (simp add: fail) (simp add: error_response_def)
  qed
  have f: "kind_of r = Succeeds \<and> status r = 200"
    if "sid \<noteq> []" "q \<noteq> []" "S sid = Some s" "\<not> blank q" "\<not> blank (doc_text s)"
      "or_empty (OPENAI_API_KEY ai) \<noteq> []"
      "create ai (build_messages q (doc_text s) (conversationHistory s)) = Returns (Some raw)"
    for s raw
  proof -
    have "askQuestion ai q (doc_text s) (conversationHistory s) =
        \<lparr>ai_success = True, data = Some (parse_response raw), ai_error = None\<rparr>"
      using that(4-7) by (simp add: askQuestion_def or_empty_def)
    then show ?thesis
      using run [OF that(1-3)] by (simp add: kind_of_def)
  qed
  show ?thesis
    unfolding Let_def sid_def [symmetric] q_def [symmetric] r_def [symmetric]
    using a b c d e f by blast
qed

theorem chat_outcomes_witness:
  "kind_of (fst (chatWithDocument (ai_says (Some (js ''No''))) store0 (ask ''s1'' ''Q1''))) = Succeeds \<and>
   status (fst (chatWithDocument (ai_says (Some (js ''No''))) store0 (ask ''s1'' ''Q1''))) = 200 \<and>
   kind_of (fst (chatWithDocument ai_down store0 (ask ''s1'' ''Q1''))) = UpstreamError \<and>
   kind_of (fst (chatWithDocument ai_down store0 (ask ''s2'' ''Q1''))) = NotFound \<and>
   kind_of (fst (chatWithDocument ai_down store0 (ask ''s1'' ''''))) = EmptyInput"
proof -
  have sid: "or_empty (req_sessionId (ask ''s1'' ''Q1'')) = js ''s1''" "js ''s1'' \<noteq> []"
    "or_empty (req_sessionId (ask ''s2'' ''Q1'')) = js ''s2''" "js ''s2'' \<noteq> []"
    "store0 (js ''s1'') = Some session0" "store0 (js ''s2'') = None"
    "or_empty (req_sessionId (ask ''s1'' '''')) = js ''s1''"
    by (simp_all add: ask_def or_empty_def js_def store0_def)
  have q: "or_empty (req_question (ask ''s1'' ''Q1'')) = js ''Q1''" "js ''Q1'' \<noteq> []"
    "\<not> blank (js ''Q1'')" "or_empty (req_question (ask ''s2'' ''Q1'')) = js ''Q1''"
    "or_empty (req_question (ask ''s1'' '''')) = []"
    by (simp_all add: ask_def or_empty_def js_def blank_def trim_def is_space_def)
  have doc: "\<not> blank (doc_text session0)"
    by (simp add: session0_def js_def blank_def trim_def is_space_def)
  have key: "or_empty (OPENAI_API_KEY (ai_says (Some (js ''No'')))) \<noteq> []"
    "or_empty (OPENAI_API_KEY ai_down) \<noteq> []"
    by (simp_all add: ai_says_def ai_down_def or_empty_def js_def)
  have out: "create (ai_says (Some (js ''No'')))
      (build_messages (js ''Q1'') (doc_text session0) (conversationHistory session0)) =
      Returns (Some (js ''No''))" "js ''No'' \<noteq> []"
    "create ai_down
      (build_messages (js ''Q1'') (doc_text session0) (conversationHistory session0)) =
      Throws (Error (js ''timeout''))"
    by (simp_all add: ai_says_def ai_down_def js_def)
  from chat_outcomes [where req = "ask ''s1'' ''Q1''" and ai = "ai_says (Some (js ''No''))"
      and S = store0] sid q doc key out
  have 1: "kind_of (fst (chatWithDocument (ai_says (Some (js ''No''))) store0
      (ask ''s1'' ''Q1''))) = Succeeds \<and>
      status (fst (chatWithDocument (ai_says (Some (js ''No''))) store0 (ask ''s1'' ''Q1''))) = 200"
    by (simp add: Let_def)
  from chat_outcomes [where req = "ask ''s1'' ''Q1''" and ai = ai_down and S = store0]
    sid q doc key out
  have 2: "kind_of (fst (chatWithDocument ai_down store0 (ask ''s1'' ''Q1''))) = UpstreamError"
    by (simp add: Let_def)
  from chat_outcomes [where req = "ask ''s2'' ''Q1''" and ai = ai_down and S = store0] sid q
  have 3: "kind_of (fst (chatWithDocument ai_down store0 (ask ''s2'' ''Q1''))) = NotFound"
    by (simp add: Let_def)
  from chat_outcomes [where req = "ask ''s1'' ''''" and ai = ai_down and S = store0] sid q
  have 4: "kind_of (fst (chatWithDocument ai_down store0 (ask ''s1'' ''''))) = EmptyInput"
    by (simp add: Let_def)
  from 1 2 3 4 show ?thesis by simp
qed

text \<open>
  C5 as the specification words it fails on the order of the checks: a question of whitespace
  only with an unknown session identifier is answered "not found", not "empty input"; an empty
  question with an unknown session identifier is answered "empty input", not "not found".
\<close>

theorem chat_outcomes_counterexample:
  "blank (js '' '') \<and> store0 (js ''s2'') = None \<and>
   kind_of (fst (chatWithDocument (ai_says (Some (js ''No''))) store0 (ask ''s2'' '' ''))) = NotFound \<and>
   blank (js '''') \<and>
   kind_of (fst (chatWithDocument (ai_says (Some (js ''No''))) store0 (ask ''s2'' ''''))) = EmptyInput"
  by (simp add: blank_def trim_def is_space_def js_def store0_def chatWithDocument_def ask_def
      or_empty_def kind_of_def error_response_def)

text \<open>
  What the handler does when the model call returns no content: the service substitutes the
  empty text, parses it, and the call is answered 200 with an empty answer.
\<close>

lemma chat_no_content:
  "fst (chatWithDocument (ai_says None) store0 (ask ''s1'' ''Q1'')) =
     \<lparr>status = 200,
      json = ChatResponse [] []
        [\<lparr>role = User, content = js ''Q1''\<rparr>, \<lparr>role = Model, content = []\<rparr>]\<rparr>"
  by (simp add: parse_eval store0_def session0_def ask_def ai_says_def chatWithDocument_def
      askQuestion_def blank_def or_empty_def mime_txt_def)

section \<open>Claims about the answer formatter\<close>

text \<open>
  C2.  When the model call returns a text, \<open>askQuestion\<close> succeeds with the parse of that
  text, whatever the text is.  The parsed answer is the text between the first \<open>ANSWER:\<close>
  (in any letter case) and the next \<open>CITATIONS:\<close> (in any letter case) or the end, trimmed; when
  \<open>ANSWER:\<close> does not occur, the answer is the whole text, untouched.
\<close>

theorem answer_section:
  assumes "\<not> blank question" and "\<not> blank documentText"
    and "or_empty (OPENAI_API_KEY ai) \<noteq> []"
    and "create ai (build_messages question documentText history) = Returns (Some raw)"
  shows "askQuestion ai question documentText history =
           \<lparr>ai_success = True, data = Some (parse_response raw), ai_error = None\<rparr> \<and>
         answer (parse_response raw) = spec_answer raw \<and>
         (spec_split ANSWER raw = None \<longrightarrow> answer (parse_response raw) = raw)"
proof (intro conjI impI)
  show "askQuestion ai question documentText history =
      \<lparr>ai_success = True, data = Some (parse_response raw), ai_error = None\<rparr>"
    using assms by (simp add: askQuestion_def or_empty_def)
  show "answer (parse_response raw) = spec_answer raw" by (rule answer_parse_response)
  assume "spec_split ANSWER raw = None"
  then show "answer (parse_response raw) = raw"
    by (simp add: answer_parse_response spec_answer_def)
qed

theorem answer_section_witness:
  "askQuestion (ai_says (Some (js ''answer: B [S1] Citations: [S2]''))) (js ''Q1'') (js ''hi'') [] =
     \<lparr>ai_success = True,
      data = Some (parse_response (js ''answer: B [S1] Citations: [S2]'')), ai_error = None\<rparr> \<and>
   answer (parse_response (js ''answer: B [S1] Citations: [S2]'')) = js ''B [S1]'' \<and>
   answer (parse_response (js '' No '')) = js '' No ''"
proof -
  have 1: "\<not> blank (js ''Q1'')" and 2: "\<not> blank (js ''hi'')"
    by (simp_all add: js_def blank_def trim_def is_space_def)
  have 3: "or_empty (OPENAI_API_KEY (ai_says c)) \<noteq> []" for c
    by (simp add: ai_says_def or_empty_def js_def)
  have 4: "create (ai_says (Some r)) (build_messages (js ''Q1'') (js ''hi'') []) = Returns (Some r)"
    for r by (simp add: ai_says_def)
  have 5: "spec_answer (js ''answer: B [S1] Citations: [S2]'') = js ''B [S1]''"
    by (simp add: spec_answer_def spec_split_Cons spec_split_Nil ANSWER_def CITATIONS_def js_def
        ci_eq_def canonicalize_def trim_def is_space_def)
  have 6: "spec_split ANSWER (js '' No '') = None"
    by (simp add: spec_split_Cons spec_split_Nil ANSWER_def js_def ci_eq_def canonicalize_def)
  from answer_section [OF 1 2 3 4, of "js ''answer: B [S1] Citations: [S2]''"] 5
  have a: "askQuestion (ai_says (Some (js ''answer: B [S1] Citations: [S2]''))) (js ''Q1'')
      (js ''hi'') [] =
      \<lparr>ai_success = True,
       data = Some (parse_response (js ''answer: B [S1] Citations: [S2]'')), ai_error = None\<rparr>"
    and b: "answer (parse_response (js ''answer: B [S1] Citations: [S2]'')) = js ''B [S1]''"
    by simp_all
  from answer_section [OF 1 2 3 4, of "js '' No ''"] 6
  have c: "answer (parse_response (js '' No '')) = js '' No ''" by blast
  from a b c show ?thesis by blast
qed

text \<open>
  C1, as the code has it.  The citations are computed in two passes.  The first pass takes
  the text behind the first \<open>CITATIONS:\<close> (in any letter case) up to the end, when there is
  one; the second pass takes the parsed answer and runs if and only if the first pass yields
  no citation.  A pass extracts every bracketed substring, removes the bracket characters,
  trims, drops the labels that are empty after trimming, and keeps the first occurrence of
  each label in order.  The result has no duplicate and no empty label, and is empty when
  neither pass finds a label.
\<close>

theorem citations_two_pass:
  "citations (parse_response raw) = two_pass_citations raw \<and>
   distinct (citations (parse_response raw)) \<and>
   [] \<notin> set (citations (parse_response raw))"
proof -
  have d: "distinct (extract_labels t)" and n: "[] \<notin> set (extract_labels t)" for t
    by (simp_all add: extract_labels_def distinct_dedup_first set_dedup_first)
  have "distinct (two_pass_citations raw) \<and> [] \<notin> set (two_pass_citations raw)"
    unfolding two_pass_citations_def Let_def
    using d n by (auto split: option.splits prod.splits)
  then show ?thesis by (simp add: citations_parse_response)
qed

theorem citations_two_pass_witness:
  "citations (parse_response (js ''ANSWER: see [P1] CITATIONS: [ ] [P2] [P2]'')) = [js ''P2''] \<and>
   two_pass_citations (js ''ANSWER: see [P1] CITATIONS: [ ] [P2] [P2]'') = [js ''P2'']"
proof -
  have "citations (parse_response (js ''ANSWER: see [P1] CITATIONS: [ ] [P2] [P2]'')) = [js ''P2'']"
    by (simp add: parse_eval)
  with citations_two_pass [of "js ''ANSWER: see [P1] CITATIONS: [ ] [P2] [P2]''"]
  show ?thesis by simp
qed

text \<open>
  C1 as the specification words it collects every bracketed substring.  On a citations
  section that holds an empty pair of brackets only, that gives the single empty label and no
  second pass; the code drops the empty label and falls back to the answer.
\<close>

theorem citations_two_pass_counterexample:
  "spec_citations (js ''ANSWER: see [P1] CITATIONS: [ ]'') = [[]] \<and>
   citations (parse_response (js ''ANSWER: see [P1] CITATIONS: [ ]'')) = [js ''P1'']"
proof -
  have "citations (parse_response (js ''ANSWER: see [P1] CITATIONS: [ ]'')) = [js ''P1'']"
    by (simp add: parse_eval)
  moreover have "spec_citations (js ''ANSWER: see [P1] CITATIONS: [ ]'') = [[]]"
    by (simp add: spec_citations_def spec_extract_def spec_answer_def spec_split_Cons
        spec_split_Nil ANSWER_def CITATIONS_def js_def ci_eq_def canonicalize_def trim_def
        is_space_def clean_def)
  ultimately show ?thesis by simp
qed

section \<open>Claims about the upload boundary\<close>

lemma alphanumeric_name_char: "name_char c \<longleftrightarrow> alphanumeric c \<or> c = 0x2D \<or> c = 0x5F"
  by (auto simp: name_char_def alphanumeric_def)

text \<open>
  C9, as the code has it.  The stored name is the sanitised base name, an underscore, the
  decimal time stamp and the extension, in this order; it is a function of the original name
  and the time stamp.  Sanitising keeps the length and replaces by an underscore every
  character of the base name that is not an ASCII letter, a digit, a hyphen or an
  underscore; the hyphen is kept.
\<close>

theorem storage_filename_sanitized:
  "storage_filename path timestamp file =
     sanitize (basename path (originalname file) (extname path (originalname file)))
     @ js ''_'' @ show_nat timestamp @ extname path (originalname file) \<and>
   length (sanitize n) = length n \<and>
   (\<forall>i<length n.
      sanitize n ! i =
        (if alphanumeric (n ! i) \<or> n ! i = 0x2D \<or> n ! i = 0x5F then n ! i else 0x5F))"
  by (simp add: storage_filename_def Let_def sanitize_def alphanumeric_name_char)

theorem storage_filename_sanitized_witness:
  "storage_filename node_path 1700000000000 upload_hyphen = js ''a-b_c_1700000000000.txt'' \<and>
   sanitize (js ''a-b c'') ! 1 = 0x2D \<and> sanitize (js ''a-b c'') ! 3 = 0x5F"
proof -
  have e: "extname node_path (originalname upload_hyphen) = js ''.txt''"
    by (simp add: node_path_def upload_hyphen_def plain_extname_def js_def)
  have b: "basename node_path (originalname upload_hyphen) (js ''.txt'') = js ''a-b c''"
    by (simp add: node_path_def upload_hyphen_def plain_basename_def js_def)
  have t: "show_nat 1700000000000 = js ''1700000000000''"
    by (simp add: show_nat.simps js_def)
  have n: "(1::nat) < length (js ''a-b c'')" "(3::nat) < length (js ''a-b c'')"
    by (simp_all add: js_def)
  have v: "\<not> alphanumeric (js ''a-b c'' ! 1)" "js ''a-b c'' ! 1 = 0x2D"
    "\<not> alphanumeric (js ''a-b c'' ! 3)" "js ''a-b c'' ! 3 = 0x20"
    by (simp_all add: js_def alphanumeric_def)
  have s: "sanitize (js ''a-b c'') = js ''a-b_c''"
    by (simp add: sanitize_def name_char_def js_def)
  from storage_filename_sanitized [of node_path 1700000000000 upload_hyphen "js ''a-b c''"]
    e b t n v s
  show ?thesis by (simp add: js_def)
qed

text \<open>
  C9 as the specification words it replaces every non-alphanumeric character.  The hyphen is
  not alphanumeric, and the code keeps it.
\<close>

theorem storage_filename_counterexample:
  "\<not> alphanumeric 0x2D \<and>
   spec_storage_filename node_path 1700000000000 upload_hyphen = js ''a_b_c_1700000000000.txt'' \<and>
   storage_filename node_path 1700000000000 upload_hyphen = js ''a-b_c_1700000000000.txt''"
  by (simp add: alphanumeric_def spec_storage_filename_def storage_filename_def Let_def
      node_path_def upload_hyphen_def plain_extname_def plain_basename_def spec_sanitize_def
      sanitize_def name_char_def show_nat.simps js_def)

text \<open>
  C6, as the code has it.  With \<open>ext\<close> the lower-cased extension of the original name:
  \<^item> a file whose \<open>ext\<close> is not one of the three extensions, or whose declared type is not one
    of the three types, is rejected with the validation error (400), and no session is made;
    the two tests are independent of each other;
  \<^item> a file that passes both tests and carries 10485761 bytes or more, that is more than
    \<open>MAX_FILE_SIZE = 10485760\<close>, is rejected with the size error (400), and no session is
    made, the upload library raising its size error for every stream longer than the limit;
  \<^item> a file that passes both tests, is not found over the limit and whose text can be
    extracted is accepted (200): a session with an empty history is stored under the new
    identifier.
\<close>

theorem upload_boundary:
  "let ext = toLowerCase (extname path (originalname upl));
       stored = js ''uploads/'' @ storage_filename path timestamp upl;
       r = upload_route path over_limit w uuid timestamp now S (Some upl)
   in MAX_FILE_SIZE = 10485760 \<and>
      (ext \<notin> set ALLOWED_EXTENSIONS \<or> file_mimetype upl \<notin> set ALLOWED_MIME_TYPES \<longrightarrow>
         status (fst r) = 400 \<and>
         (\<exists>m. json (fst r) = ErrorResponse (js ''File validation error'') m) \<and> snd r = S) \<and>
      (ext \<in> set ALLOWED_EXTENSIONS \<and> file_mimetype upl \<in> set ALLOWED_MIME_TYPES \<longrightarrow>
         ((\<forall>bytes limit. limit < bytes \<longrightarrow> over_limit bytes limit) \<and>
          10485761 \<le> file_size upl \<longrightarrow>
            fst r = error_response 400 ''File too large'' (js ''File size must not exceed 10MB'') \<and>
            snd r = S) \<and>
         (\<not> over_limit (file_size upl) 10485760 \<and>
          success (processDocument w stored (file_mimetype upl)) \<longrightarrow>
            status (fst r) = 200 \<and>
            (\<exists>s. snd r uuid = Some s \<and> conversationHistory s = [] \<and>
                 filename s = originalname upl \<and>
                 doc_text s = text' (processDocument w stored (file_mimetype upl)))))"
proof -
  define ext where "ext = toLowerCase (extname path (originalname upl))"
  define stored where "stored = js ''uploads/'' @ storage_filename path timestamp upl"
  define r where "r = upload_route path over_limit w uuid timestamp now S (Some upl)"
  have max: "MAX_FILE_SIZE = 10485760" by (simp add: MAX_FILE_SIZE_def)
  have mb: "js ''File size must not exceed '' @ show_nat 10 @ js ''MB''
      = js ''File size must not exceed 10MB''"
    by (simp add: show_nat.simps js_def)
  have rej: "status (fst r) = 400 \<and>
      (\<exists>m. json (fst r) = ErrorResponse (js ''File validation error'') m) \<and> snd r = S"
    if "ext \<notin> set ALLOWED_EXTENSIONS \<or> file_mimetype upl \<notin> set ALLOWED_MIME_TYPES"
  proof -
    from that have "\<exists>m. fileFilter path upl = Rejected m"
      unfolding ext_def by (auto simp: fileFilter_def Let_def)
    then obtain m where "fileFilter path upl = Rejected m" ..
    then show ?thesis
      unfolding r_def by (simp add: upload_route_def uploadMiddleware_def error_response_def)
  qed
  have acc: "fileFilter path upl = Accepted"
    if "ext \<in> set ALLOWED_EXTENSIONS" "file_mimetype upl \<in> set ALLOWED_MIME_TYPES"
    using that unfolding ext_def by (simp add: fileFilter_def Let_def)
  have big: "fst r = error_response 400 ''File too large'' (js ''File size must not exceed 10MB'')
      \<and> snd r = S"
    if "ext \<in> set ALLOWED_EXTENSIONS" "file_mimetype upl \<in> set ALLOWED_MIME_TYPES"
      "\<forall>bytes limit. limit < bytes \<longrightarrow> over_limit bytes limit" "10485761 \<le> file_size upl"
  proof -
    from that(3,4) have "over_limit (file_size upl) MAX_FILE_SIZE" by (simp add: max)
    then show ?thesis
      using acc [OF that(1,2)] unfolding r_def
      by (simp add: upload_route_def uploadMiddleware_def max mb)
  qed
  have ok: "status (fst r) = 200 \<and>
      (\<exists>s. snd r uuid = Some s \<and> conversationHistory s = [] \<and> filename s = originalname upl \<and>
           doc_text s = text' (processDocument w stored (file_mimetype upl)))"
    if "ext \<in> set ALLOWED_EXTENSIONS" "file_mimetype upl \<in> set ALLOWED_MIME_TYPES"
      "\<not> over_limit (file_size upl) 10485760"
      "success (processDocument w stored (file_mimetype upl))"
    using acc [OF that(1,2)] that(3,4) unfolding r_def stored_def
    by (simp add: upload_route_def uploadMiddleware_def max uploadDocument_def Let_def)
  show ?thesis
    unfolding Let_def ext_def [symmetric] stored_def [symmetric] r_def [symmetric]
    using max rej big ok by blast
qed

theorem upload_boundary_witness:
  "fst (upload_route node_path reaches_limit files_hi (js ''u1'') 17 18 Map.empty (Some upload_large)) =
     error_response 400 ''File too large'' (js ''File size must not exceed 10MB'') \<and>
   status (fst (upload_route node_path reaches_limit files_hi (js ''u1'') 17 18 Map.empty
     (Some upload_exe))) = 400 \<and>
   status (fst (upload_route node_path reaches_limit files_hi (js ''u1'') 17 18 Map.empty
     (Some (upload_large\<lparr>file_size := 1024\<rparr>)))) = 200"
proof -
  have ext: "toLowerCase (extname node_path (originalname upload_large)) = js ''.txt''"
    "toLowerCase (extname node_path (originalname upload_exe)) = js ''.exe''"
    by (simp_all add: toLowerCase_def node_path_def upload_large_def upload_exe_def
        plain_extname_def js_def)
  have mem: "js ''.txt'' \<in> set ALLOWED_EXTENSIONS" "js ''.exe'' \<notin> set ALLOWED_EXTENSIONS"
    "mime_txt \<in> set ALLOWED_MIME_TYPES"
    by (simp_all add: ALLOWED_EXTENSIONS_def ALLOWED_MIME_TYPES_def js_def)
  have f: "file_mimetype upload_large = mime_txt" "file_size upload_large = 10485761"
    "originalname (upload_large\<lparr>file_size := 1024\<rparr>) = originalname upload_large"
    by (simp_all add: upload_large_def)
  have lib: "\<forall>bytes limit. limit < bytes \<longrightarrow> reaches_limit bytes limit"
    "\<not> reaches_limit 1024 10485760"
    by (simp_all add: reaches_limit_def)
  have p: "success (processDocument files_hi p mime_txt)" for p
    by (simp add: processDocument_def files_hi_def mime_pdf_def mime_docx_def mime_txt_def
        js_def extractTextFromTXT_def blank_opt_def trim_def is_space_def finish_def)
  from upload_boundary [where path = node_path and upl = upload_large and w = files_hi
      and over_limit = reaches_limit
      and uuid = "js ''u1''" and timestamp = 17 and now = 18 and S = Map.empty] ext mem f lib
  have 1: "fst (upload_route node_path reaches_limit files_hi (js ''u1'') 17 18 Map.empty
      (Some upload_large)) =
      error_response 400 ''File too large'' (js ''File size must not exceed 10MB'')"
    by (simp add: Let_def MAX_FILE_SIZE_def)
  from upload_boundary [where path = node_path and upl = upload_exe and w = files_hi
      and over_limit = reaches_limit
      and uuid = "js ''u1''" and timestamp = 17 and now = 18 and S = Map.empty] ext mem
  have 2: "status (fst (upload_route node_path reaches_limit files_hi (js ''u1'') 17 18 Map.empty
      (Some upload_exe))) = 400"
    by (simp add: Let_def MAX_FILE_SIZE_def)
  from upload_boundary [where path = node_path and upl = "upload_large\<lparr>file_size := 1024\<rparr>"
      and over_limit = reaches_limit
      and w = files_hi and uuid = "js ''u1''" and timestamp = 17 and now = 18 and S = Map.empty]
    ext mem f lib p
  have 3: "status (fst (upload_route node_path reaches_limit files_hi (js ''u1'') 17 18 Map.empty
      (Some (upload_large\<lparr>file_size := 1024\<rparr>)))) = 200"
    by (simp add: Let_def MAX_FILE_SIZE_def)
  from 1 2 3 show ?thesis by simp
qed

text \<open>
  C6 as the specification words it rejects a \<open>.pdf\<close> file that is declared \<open>text/plain\<close>.  The
  filter accepts it, since the extension is a supported one and the declared type is a
  supported one, and the upload is answered 200.
\<close>

theorem upload_boundary_counterexample:
  "originalname upload_mismatch = js ''report.pdf'' \<and>
   file_mimetype upload_mismatch = js ''text/plain'' \<and>
   fileFilter node_path upload_mismatch = Accepted \<and>
   status (fst (upload_route node_path reaches_limit files_hi (js ''u1'') 17 18 Map.empty
     (Some upload_mismatch))) = 200"
proof -
  have a: "fileFilter node_path upload_mismatch = Accepted"
    by (simp add: fileFilter_def Let_def toLowerCase_def node_path_def upload_mismatch_def
        plain_extname_def ALLOWED_EXTENSIONS_def ALLOWED_MIME_TYPES_def mime_pdf_def
        mime_docx_def mime_txt_def js_def)
  have p: "success (processDocument files_hi p mime_txt)" for p
    by (simp add: processDocument_def files_hi_def mime_pdf_def mime_docx_def mime_txt_def
        js_def extractTextFromTXT_def blank_opt_def trim_def is_space_def finish_def)
  have f: "file_size upload_mismatch = 5" "file_mimetype upload_mismatch = mime_txt"
    "originalname upload_mismatch = js ''report.pdf''"
    by (simp_all add: upload_mismatch_def)
  have "status (fst (upload_route node_path reaches_limit files_hi (js ''u1'') 17 18 Map.empty
      (Some upload_mismatch))) = 200"
    using p [of "js ''uploads/'' @ storage_filename node_path 17 upload_mismatch"]
    by (simp add: upload_route_def uploadMiddleware_def a f uploadDocument_def Let_def
        MAX_FILE_SIZE_def reaches_limit_def)
  with a f show ?thesis by (simp add: mime_txt_def)
qed

end
